theory Spec2Isabelle
  imports Main
begin

section \<open>JavaScript values\<close>

text \<open>
  The payloads handed to the job queue service are plain JavaScript values. They are
  modelled as finite trees: a property list lists the own enumerable properties of a
  plain object in the order in which \<^verbatim>\<open>for (var key in data)\<close> visits them; a hole of
  an array reads as \<^verbatim>\<open>undefined\<close> and is written \<open>Undefined\<close>. Numbers are only
  passed around, never computed with, and are kept as integers. Function values and
  cyclic structures are outside the model.
\<close>

datatype jsval =
    Undefined
  | Null
  | Bool bool
  | Num int
  | Str string
  | Arr "jsval list"
  | Obj "(string \<times> jsval) list"

text \<open>
  Thrown values. \<open>InvalidTypeParam v\<close> stands for
  \<^verbatim>\<open>new Error('Invalid value for the type param, value: ' + v)\<close>, \<open>Failure\<close> for
  whatever a collaborator throws or rejects with.
\<close>

datatype js_error =
    TypeError string
  | Error string
  | InvalidTypeParam jsval
  | Failure string

text \<open>\<^verbatim>\<open>typeof v === 'object'\<close>: true of objects, arrays and \<^verbatim>\<open>null\<close>.\<close>

fun typeof_object :: "jsval \<Rightarrow> bool" where
  "typeof_object Null = True"
| "typeof_object (Arr xs) = True"
| "typeof_object (Obj props) = True"
| "typeof_object v = False"

text \<open>Truthiness, as tested by \<^verbatim>\<open>if (v)\<close> and \<^verbatim>\<open>!v\<close>.\<close>

fun truthy :: "jsval \<Rightarrow> bool" where
  "truthy Undefined = False"
| "truthy Null = False"
| "truthy (Bool b) = b"
| "truthy (Num n) = (n \<noteq> 0)"
| "truthy (Str s) = (s \<noteq> [])"
| "truthy (Arr xs) = True"
| "truthy (Obj props) = True"

section \<open>The payload sanitizer\<close>

text \<open>
  The first loop of \<^verbatim>\<open>removeUndefinedFields\<close>, run on arrays only:
  \<^verbatim>\<open>
  for (var i = 0; i < data.length; i += 1) {
    var arrayContent = data[i];
    if (arrayContent === undefined) { data.splice(i); i -= 1; }
  }
  \<close>
  \<^verbatim>\<open>data.splice(i)\<close> is called with a start index only, which removes every element
  from index \<open>i\<close> to the end: the array becomes \<open>take i data\<close>. The decrement in the
  body and the increment of the loop header cancel, so the next test is made at the
  same \<open>i\<close> (the index is never negative at the loop test, hence a natural number).
\<close>

function splice_loop :: "jsval list \<Rightarrow> nat \<Rightarrow> jsval list" where
  "splice_loop data i =
     (if i < length data
      then (if data ! i = Undefined then splice_loop (take i data) i
            else splice_loop data (i + 1))
      else data)"
  by pat_completeness auto
termination
  by (relation "measure (\<lambda>(data, i). length data - i)") auto

declare splice_loop.simps [simp del]

text \<open>
  \<^verbatim>\<open>data.hasOwnProperty(key)\<close> looks the method up on the object itself first. Every
  value of the model is a non-callable one, so an object that has an own property
  named \<^verbatim>\<open>hasOwnProperty\<close> makes the call throw a \<^verbatim>\<open>TypeError\<close>.
\<close>

definition hasOwnProperty_shadowed :: "(string \<times> jsval) list \<Rightarrow> bool" where
  "hasOwnProperty_shadowed props = (''hasOwnProperty'' \<in> fst ` set props)"

lemma size_splice_loop: "size_list size (splice_loop data i) \<le> size_list size data"
proof (induction data i rule: splice_loop.induct)
  case (1 data i)
  have tk: "size_list size (take i data) \<le> size_list size data"
    by (metis append_take_drop_id size_list_append le_add1)
  show ?case using 1 tk by (subst splice_loop.simps) auto
qed

text \<open>
  \<^verbatim>\<open>removeUndefinedFields\<close> mutates its argument in place and returns nothing; the model
  returns the value the argument holds afterwards, or the error thrown. After the
  array loop, a value that is not of type \<^verbatim>\<open>'object'\<close> is left alone; otherwise the
  second loop visits every own key, recurses into values of type \<^verbatim>\<open>'object'\<close> and
  deletes the keys whose value is \<^verbatim>\<open>undefined\<close>. \<open>for_in_array\<close> is that loop over the
  indices of an array (a deleted index would leave a hole, which reads as
  \<open>Undefined\<close>), \<open>for_in_object\<close> the loop over the properties of a plain object; its
  first argument is the object whose \<^verbatim>\<open>hasOwnProperty\<close> is called.
\<close>

function removeUndefinedFields :: "jsval \<Rightarrow> js_error + jsval"
  and for_in_array :: "jsval list \<Rightarrow> js_error + jsval list"
  and for_in_object ::
    "(string \<times> jsval) list \<Rightarrow> (string \<times> jsval) list \<Rightarrow> js_error + (string \<times> jsval) list"
where
  "removeUndefinedFields (Arr data) =
     (case for_in_array (splice_loop data 0) of
        Inl err \<Rightarrow> Inl err
      | Inr data' \<Rightarrow> Inr (Arr data'))"
| "removeUndefinedFields (Obj props) =
     (case for_in_object props props of
        Inl err \<Rightarrow> Inl err
      | Inr props' \<Rightarrow> Inr (Obj props'))"
| "removeUndefinedFields Null = Inr Null"
| "removeUndefinedFields Undefined = Inr Undefined"
| "removeUndefinedFields (Bool b) = Inr (Bool b)"
| "removeUndefinedFields (Num n) = Inr (Num n)"
| "removeUndefinedFields (Str s) = Inr (Str s)"
| "for_in_array [] = Inr []"
| "for_in_array (v # rest) =
     (case (if typeof_object v then removeUndefinedFields v else Inr v) of
        Inl err \<Rightarrow> Inl err
      | Inr v' \<Rightarrow>
          (case for_in_array rest of
             Inl err \<Rightarrow> Inl err
           | Inr rest' \<Rightarrow> Inr (v' # rest')))"
| "for_in_object data [] = Inr []"
| "for_in_object data ((key, v) # rest) =
     (if hasOwnProperty_shadowed data
      then Inl (TypeError ''data.hasOwnProperty is not a function'')
      else
        (case (if typeof_object v then removeUndefinedFields v else Inr v) of
           Inl err \<Rightarrow> Inl err
         | Inr v' \<Rightarrow>
             (case for_in_object data rest of
                Inl err \<Rightarrow> Inl err
              | Inr rest' \<Rightarrow>
                  Inr (if v' = Undefined then rest' else (key, v') # rest'))))"
  by pat_completeness auto
termination
  apply (relation "measure (\<lambda>x. case x of
            Inl v \<Rightarrow> 2 * size v
          | Inr (Inl xs) \<Rightarrow> 2 * size_list size xs + 1
          | Inr (Inr (data, props)) \<Rightarrow> 2 * size_list (size_prod (\<lambda>_. 0) size) props + 1)")
  apply (auto simp: size_splice_loop le_imp_less_Suc)
  done

section \<open>The job queue service\<close>

subsection \<open>Data\<close>

text \<open>What \<^verbatim>\<open>LeAsymmetricEncryptionService.encrypt\<close> returns: an object with the two
  fields \<^verbatim>\<open>encryptedData\<close> and \<^verbatim>\<open>encryptedKey\<close>.\<close>

record encryptedPayload =
  payloadData :: jsval
  payloadKey :: jsval

text \<open>
  The object \<^verbatim>\<open>jobData\<close> written to the record (and the job a worker receives):
  \<^verbatim>\<open>type\<close>, \<^verbatim>\<open>data\<close>, and the two optional fields; \<open>None\<close> is an absent field.
\<close>

record jobData =
  jtype :: string
  jdata :: jsval
  encryptedData :: "jsval option"
  encryptedKey :: "jsval option"

text \<open>The record handle the storage hands back.\<close>

record record_handle =
  record_path :: string
  record_data :: jobData

text \<open>A promise as its caller eventually sees it.\<close>

datatype 'a promise = Pending | Resolved 'a | Rejected js_error

record trackingEvent =
  event_type :: string
  eventName :: string
  happenedAt :: int
  jobCompletionTime :: int

text \<open>The calls the service makes on its collaborators, in the order it makes them.\<close>

datatype effect =
    FetchRecord string string
  | ConsoleLog js_error
  | CreateRecord string
  | RecordUpdate string jobData
  | RecordSync record_handle
  | SyncCallback jsval
  | RecordUnsync record_handle
  | DeferredResolve
  | DeferredReject js_error
  | LogServiceLog string jsval
  | LogServiceError js_error
  | DataServiceCreate trackingEvent
  | ProviderComplete

text \<open>
  The collaborators of a submission are parameters: \<open>fetchRecord name key\<close> is the
  outcome of \<^verbatim>\<open>_storage.fetchRecord(name, key)\<close>, resolved with what \<^verbatim>\<open>getData()\<close> of
  the fetched record returns; \<open>record_update path jobData\<close> is the outcome of
  \<^verbatim>\<open>_storage.createRecord(path).update(jobData)\<close>; \<open>encrypt\<close> is the synchronous
  \<^verbatim>\<open>LeAsymmetricEncryptionService.encrypt\<close>, which may throw.
\<close>

record collaborators =
  fetchRecord :: "string \<Rightarrow> string \<Rightarrow> jsval promise"
  record_update :: "string \<Rightarrow> jobData \<Rightarrow> record_handle promise"
  encrypt :: "jsval \<Rightarrow> jsval \<Rightarrow> js_error + encryptedPayload"

text \<open>The closure variables of a \<^verbatim>\<open>JobQueueService\<close> that submissions read and write.\<close>

record service =
  queueType :: jsval
  publicKey :: jsval

subsection \<open>Construction\<close>

definition JobQueueService :: "'s option \<Rightarrow> jsval \<Rightarrow> js_error + service" where
  "JobQueueService storage type =
     (if storage = None then Inl (Error ''Instance of storage service required'')
      else if type \<noteq> Str ''session'' \<and> type \<noteq> Str ''fast'' \<and> type \<noteq> Str ''default''
              \<and> type \<noteq> Undefined
      then Inl (InvalidTypeParam type)
      else Inr \<lparr>queueType = type, publicKey = Undefined\<rparr>)"

subsection \<open>Submission\<close>

text \<open>\<^verbatim>\<open>publicKeyRecordData.value\<close>: reading a property of \<^verbatim>\<open>undefined\<close> or \<^verbatim>\<open>null\<close>
  throws, a missing property reads as \<^verbatim>\<open>undefined\<close>.\<close>

fun get_value :: "jsval \<Rightarrow> js_error + jsval" where
  "get_value Undefined = Inl (TypeError ''Cannot read property value of undefined'')"
| "get_value Null = Inl (TypeError ''Cannot read property value of null'')"
| "get_value (Obj props) =
     Inr (case map_of props ''value'' of None \<Rightarrow> Undefined | Some v \<Rightarrow> v)"
| "get_value v = Inr Undefined"

definition fetchPublicKey :: "collaborators \<Rightarrow> service \<Rightarrow> service \<times> effect list \<times> unit promise" where
  "fetchPublicKey c svc =
     (case fetchRecord c ''Public Key'' ''BACKGROUND_PUBLIC_KEY'' of
        Pending \<Rightarrow> (svc, [FetchRecord ''Public Key'' ''BACKGROUND_PUBLIC_KEY''], Pending)
      | Rejected err \<Rightarrow>
          (svc, [FetchRecord ''Public Key'' ''BACKGROUND_PUBLIC_KEY''], Rejected err)
      | Resolved publicKeyRecordData \<Rightarrow>
          (case get_value publicKeyRecordData of
             Inl err \<Rightarrow>
               (svc, [FetchRecord ''Public Key'' ''BACKGROUND_PUBLIC_KEY''], Rejected err)
           | Inr v \<Rightarrow>
               (svc\<lparr>publicKey := v\<rparr>,
                [FetchRecord ''Public Key'' ''BACKGROUND_PUBLIC_KEY''], Resolved ())))"

text \<open>The first callback of the promise chain of \<^verbatim>\<open>addJob\<close>.\<close>

definition addJob_then1 :: "collaborators \<Rightarrow> service \<Rightarrow> jsval \<Rightarrow> service \<times> effect list \<times> unit promise" where
  "addJob_then1 c svc sensitiveData =
     (if \<not> truthy (publicKey svc) \<and> truthy sensitiveData then fetchPublicKey c svc
      else (svc, [], Resolved ()))"

text \<open>The path handed to \<^verbatim>\<open>_storage.createRecord\<close>.\<close>

definition createRecord_path :: "jsval \<Rightarrow> string" where
  "createRecord_path qt =
     (if qt = Str ''fast'' then ''_fastQueue/task''
      else if qt = Str ''session'' then ''_sessionQueue/task''
      else ''_queue/task'')"

text \<open>The \<^verbatim>\<open>try\<close>/\<^verbatim>\<open>catch\<close> around the encryption: the payload, if any, and what is
  logged.\<close>

definition encrypt_step :: "collaborators \<Rightarrow> service \<Rightarrow> jsval \<Rightarrow> encryptedPayload option \<times> effect list" where
  "encrypt_step c svc sensitiveData =
     (if truthy sensitiveData
      then (case encrypt c sensitiveData (publicKey svc) of
              Inl err \<Rightarrow> (None, [ConsoleLog err])
            | Inr p \<Rightarrow> (Some p, []))
      else (None, []))"

text \<open>The object \<^verbatim>\<open>jobData\<close> built from the arguments and the payload.\<close>

definition make_jobData :: "string \<Rightarrow> jsval \<Rightarrow> encryptedPayload option \<Rightarrow> jobData" where
  "make_jobData type data encryptedPayload =
     (case encryptedPayload of
        None \<Rightarrow> \<lparr>jtype = type, jdata = data, encryptedData = None, encryptedKey = None\<rparr>
      | Some p \<Rightarrow>
          \<lparr>jtype = type, jdata = data,
           encryptedData = Some (payloadData p), encryptedKey = Some (payloadKey p)\<rparr>)"

text \<open>The second callback of the promise chain of \<^verbatim>\<open>addJob\<close>.\<close>

definition addJob_then2 ::
  "collaborators \<Rightarrow> service \<Rightarrow> string \<Rightarrow> jsval \<Rightarrow> jsval \<Rightarrow> effect list \<times> record_handle promise" where
  "addJob_then2 c svc type data sensitiveData =
     (case encrypt_step c svc sensitiveData of
        (encryptedPayload, logged) \<Rightarrow>
          (logged @
             [CreateRecord (createRecord_path (queueType svc)),
              RecordUpdate (createRecord_path (queueType svc))
                (make_jobData type data encryptedPayload)],
           record_update c (createRecord_path (queueType svc))
             (make_jobData type data encryptedPayload)))"

text \<open>
  \<^verbatim>\<open>addJob\<close>: \<open>Inl\<close> is an error thrown before the promise chain is built (by the
  sanitizer); otherwise the service afterwards, the calls made and the promise.
\<close>

definition addJob ::
  "collaborators \<Rightarrow> service \<Rightarrow> string \<Rightarrow> jsval \<Rightarrow> jsval
     \<Rightarrow> js_error + (service \<times> effect list \<times> record_handle promise)" where
  "addJob c svc type data sensitiveData =
     (case removeUndefinedFields data of
        Inl err \<Rightarrow> Inl err
      | Inr data' \<Rightarrow>
          (case removeUndefinedFields sensitiveData of
             Inl err \<Rightarrow> Inl err
           | Inr sensitiveData' \<Rightarrow>
               Inr (case addJob_then1 c svc sensitiveData' of
                      (svc', fetched, Pending) \<Rightarrow> (svc', fetched, Pending)
                    | (svc', fetched, Rejected err) \<Rightarrow> (svc', fetched, Rejected err)
                    | (svc', fetched, Resolved u) \<Rightarrow>
                        (case addJob_then2 c svc' type data' sensitiveData' of
                           (stored, p) \<Rightarrow> (svc', fetched @ stored, p)))))"

subsection \<open>Blocking submission\<close>

text \<open>
  What a subscription of \<^verbatim>\<open>performJob\<close> holds: whether the record is still synced and
  the state of \<^verbatim>\<open>deferred\<close>.
\<close>

record subscription =
  synced :: bool
  deferred :: "unit promise"

text \<open>Settling a deferred: only a pending one changes.\<close>

definition deferred_resolve :: "unit promise \<Rightarrow> unit promise" where
  "deferred_resolve p = (case p of Pending \<Rightarrow> Resolved () | _ \<Rightarrow> p)"

definition deferred_reject :: "js_error \<Rightarrow> unit promise \<Rightarrow> unit promise" where
  "deferred_reject err p = (case p of Pending \<Rightarrow> Rejected err | _ \<Rightarrow> p)"

text \<open>The function \<^verbatim>\<open>performJob\<close> passes to \<^verbatim>\<open>record.sync\<close>, called with the record data.\<close>

definition sync_callback :: "record_handle \<Rightarrow> subscription \<Rightarrow> jsval \<Rightarrow> subscription \<times> effect list" where
  "sync_callback record sub recordData =
     (if recordData = Null
      then (sub\<lparr>synced := False, deferred := deferred_resolve (deferred sub)\<rparr>,
            [RecordUnsync record, DeferredResolve])
      else (sub, []))"

text \<open>
  Modelled from the spec: the storage collaborator's \<^verbatim>\<open>Record.sync(onChange)\<close> and
  \<^verbatim>\<open>Record.unsync()\<close>, which are not part of this repository. The storage calls
  \<open>onChange\<close> with each observed state of the record, in order, as long as the
  subscription is active; \<open>unsync\<close> ends the subscription.
\<close>

fun deliver :: "record_handle \<Rightarrow> subscription \<Rightarrow> jsval list \<Rightarrow> subscription \<times> effect list" where
  "deliver record sub [] = (sub, [])"
| "deliver record sub (recordData # later) =
     (if synced sub
      then (case sync_callback record sub recordData of
              (sub', done) \<Rightarrow>
                (case deliver record sub' later of
                   (sub'', done') \<Rightarrow> (sub'', SyncCallback recordData # done @ done')))
      else (sub, []))"

text \<open>
  \<^verbatim>\<open>performJob\<close>, with the states of the record the storage observes after the
  subscription. It returns the promise of its deferred in every case: an error thrown
  by \<^verbatim>\<open>addJob\<close> is caught and rejects the deferred; a rejected or pending \<^verbatim>\<open>addJob\<close>
  promise never runs the callback that subscribes.
\<close>

definition performJob ::
  "collaborators \<Rightarrow> service \<Rightarrow> string \<Rightarrow> jsval \<Rightarrow> jsval \<Rightarrow> jsval list
     \<Rightarrow> service \<times> effect list \<times> unit promise" where
  "performJob c svc type data sensitiveData observed =
     (case addJob c svc type data sensitiveData of
        Inl err \<Rightarrow> (svc, [DeferredReject err], deferred_reject err Pending)
      | Inr (svc', made, Resolved record) \<Rightarrow>
          (case deliver record \<lparr>synced = True, deferred = Pending\<rparr> observed of
             (sub, done) \<Rightarrow> (svc', made @ RecordSync record # done, deferred sub))
      | Inr (svc', made, p) \<Rightarrow> (svc', made, Pending))"

subsection \<open>The worker wrapper\<close>

text \<open>
  One call of \<^verbatim>\<open>complete\<close> by the user's processor: the job object as it is at that
  moment, the reading of \<^verbatim>\<open>new Date().getTime()\<close> and the reading of the later
  \<^verbatim>\<open>new Date()\<close>.
\<close>

record completion =
  job_then :: jobData
  jobCompleteTime :: int
  completedAt :: int

text \<open>
  The collaborators of a worker: \<open>decrypt\<close> is
  \<^verbatim>\<open>LeAsymmetricEncryptionService.decrypt\<close>, \<open>Object_assign\<close> the built-in
  \<^verbatim>\<open>Object.assign\<close> (both may throw), \<open>processJob\<close> the user's processor: the calls of
  \<^verbatim>\<open>complete\<close> it makes, in order, and the error it throws, if any.
\<close>

record worker_collaborators =
  decrypt :: "encryptedPayload \<Rightarrow> jsval \<Rightarrow> js_error + jsval"
  Object_assign :: "jsval \<Rightarrow> jsval \<Rightarrow> js_error + jsval"
  processJob :: "jobData \<Rightarrow> completion list \<times> js_error option"

text \<open>Reading an optional field: an absent one reads as \<^verbatim>\<open>undefined\<close>.\<close>

definition field_value :: "jsval option \<Rightarrow> jsval" where
  "field_value f = (case f of None \<Rightarrow> Undefined | Some v \<Rightarrow> v)"

text \<open>The decryption block of \<^verbatim>\<open>innerProcessJob\<close>: the job afterwards and what is logged.\<close>

definition decrypt_step :: "worker_collaborators \<Rightarrow> jsval \<Rightarrow> jobData \<Rightarrow> jobData \<times> effect list" where
  "decrypt_step w keypair job =
     (if truthy (field_value (encryptedData job))
      then (case decrypt w \<lparr>payloadData = field_value (encryptedData job),
                            payloadKey = field_value (encryptedKey job)\<rparr> keypair of
              Inl err \<Rightarrow> (job, [LogServiceError err])
            | Inr decryptedData \<Rightarrow>
                (case Object_assign w (jdata job) decryptedData of
                   Inl err \<Rightarrow> (job, [LogServiceError err])
                 | Inr merged \<Rightarrow>
                     (job\<lparr>jdata := merged, encryptedData := None, encryptedKey := None\<rparr>, [])))
      else (job, []))"

text \<open>The function the wrapper passes to the processor as \<^verbatim>\<open>complete\<close>.\<close>

definition complete_callback :: "int \<Rightarrow> completion \<Rightarrow> effect list" where
  "complete_callback jobStartTime cpl =
     [DataServiceCreate
        \<lparr>event_type = ''TrackingEvent'',
         eventName = jtype (job_then cpl) @ ''-job-completed'',
         happenedAt = completedAt cpl,
         jobCompletionTime = jobCompleteTime cpl - jobStartTime\<rparr>,
      ProviderComplete]"

text \<open>
  \<^verbatim>\<open>innerProcessJob\<close>, the function registered with the provider, with the reading of
  the clock at its entry: the calls it makes and the error that escapes it, if any.
\<close>

definition innerProcessJob ::
  "worker_collaborators \<Rightarrow> jsval \<Rightarrow> int \<Rightarrow> jobData \<Rightarrow> effect list \<times> js_error option" where
  "innerProcessJob w keypair jobStartTime job =
     (case decrypt_step w keypair job of
        (job', logged) \<Rightarrow>
          (case processJob w job' of
             (completions, thrown) \<Rightarrow>
               (LogServiceLog (''Processing '' @ jtype job @ '' job'') (jdata job) # logged
                  @ concat (map (complete_callback jobStartTime) completions),
                thrown)))"

text \<open>
  A caller that makes one \<^verbatim>\<open>addJob\<close> call after the other on the same service, each
  promise settled before the next call; every call comes with the behaviour of the
  collaborators at that time. A call that throws leaves the service as it was.
\<close>

fun addJobs ::
  "service \<Rightarrow> (collaborators \<times> string \<times> jsval \<times> jsval) list \<Rightarrow> service \<times> effect list" where
  "addJobs svc [] = (svc, [])"
| "addJobs svc ((c, type, data, sensitiveData) # calls) =
     (case addJob c svc type data sensitiveData of
        Inl err \<Rightarrow> addJobs svc calls
      | Inr (svc', made, p) \<Rightarrow>
          (case addJobs svc' calls of (svc'', made') \<Rightarrow> (svc'', made @ made')))"

text \<open>Reading a trace: the paths of the records created, the number of key fetches.\<close>

fun created_paths :: "effect list \<Rightarrow> string list" where
  "created_paths [] = []"
| "created_paths (CreateRecord path # es) = path # created_paths es"
| "created_paths (e # es) = created_paths es"

fun fetch_count :: "effect list \<Rightarrow> nat" where
  "fetch_count [] = 0"
| "fetch_count (FetchRecord name key # es) = Suc (fetch_count es)"
| "fetch_count (e # es) = fetch_count es"

text \<open>
  A key fetch succeeds when the storage resolves with a record whose \<^verbatim>\<open>value\<close> is a
  usable (truthy) key.
\<close>

definition fetch_succeeds :: "collaborators \<Rightarrow> bool" where
  "fetch_succeeds c =
     (case fetchRecord c ''Public Key'' ''BACKGROUND_PUBLIC_KEY'' of
        Resolved publicKeyRecordData \<Rightarrow>
          (case get_value publicKeyRecordData of Inl err \<Rightarrow> False | Inr v \<Rightarrow> truthy v)
      | _ \<Rightarrow> False)"

subsection \<open>Example collaborators\<close>

text \<open>
  A storage that holds the key \<^verbatim>\<open>'KEY'\<close> and accepts every record, and an encryption
  that succeeds with that key and throws with any other.
\<close>

definition example_collaborators :: collaborators where
  "example_collaborators =
     \<lparr>fetchRecord = (\<lambda>name key. Resolved (Obj [(''value'', Str ''KEY'')])),
      record_update = (\<lambda>path j. Resolved \<lparr>record_path = path, record_data = j\<rparr>),
      encrypt = (\<lambda>sensitiveData key.
        if key = Str ''KEY''
        then Inr \<lparr>payloadData = Str ''sealed'', payloadKey = Str ''wrapped''\<rparr>
        else Inl (Failure ''malformed key''))\<rparr>"

text \<open>A service with the fast queue and no key yet, and a submission.\<close>

definition example_service :: service where
  "example_service = \<lparr>queueType = Str ''fast'', publicKey = Undefined\<rparr>"

definition example_data :: jsval where
  "example_data = Obj [(''to'', Str ''ann''), (''cc'', Undefined)]"

definition example_sensitive :: jsval where
  "example_sensitive = Obj [(''password'', Str ''secret'')]"

definition example_job :: jobData where
  "example_job =
     \<lparr>jtype = ''mail'', jdata = Obj [(''to'', Str ''ann'')],
      encryptedData = Some (Str ''sealed''), encryptedKey = Some (Str ''wrapped'')\<rparr>"

text \<open>A service whose cached key the encryption rejects, and the job it stores.\<close>

definition stale_service :: service where
  "stale_service = \<lparr>queueType = Undefined, publicKey = Str ''stale''\<rparr>"

definition plain_job :: jobData where
  "plain_job =
     \<lparr>jtype = ''mail'', jdata = Obj [(''to'', Str ''ann'')],
      encryptedData = None, encryptedKey = None\<rparr>"

text \<open>A service with the session queue and a cached key.\<close>

definition session_service :: service where
  "session_service = \<lparr>queueType = Str ''session'', publicKey = Str ''KEY''\<rparr>"

text \<open>The same collaborators with a storage whose key fetch is rejected.\<close>

definition offline_collaborators :: collaborators where
  "offline_collaborators =
     example_collaborators\<lparr>fetchRecord := (\<lambda>name key. Rejected (Failure ''offline''))\<rparr>"

text \<open>
  \<^verbatim>\<open>Object.assign(target, source)\<close> where both are plain objects: a key the target
  has keeps its place and takes the value of the source, a new key is added at the
  end. A target that is \<^verbatim>\<open>undefined\<close> or \<^verbatim>\<open>null\<close> throws; a source that is
  \<^verbatim>\<open>undefined\<close>, \<^verbatim>\<open>null\<close>, a boolean or a number has no own properties and leaves
  the target as it is. The results of the remaining cases (a string or array source,
  an array or primitive target) are no values of \<open>jsval\<close>; the example worker never
  meets them, and they are marked by a \<open>Failure\<close>.
\<close>

fun set_prop :: "string \<Rightarrow> jsval \<Rightarrow> (string \<times> jsval) list \<Rightarrow> (string \<times> jsval) list" where
  "set_prop key v [] = [(key, v)]"
| "set_prop key v ((k, x) # props) =
     (if k = key then (key, v) # props else (k, x) # set_prop key v props)"

fun assign_props :: "(string \<times> jsval) list \<Rightarrow> (string \<times> jsval) list \<Rightarrow> (string \<times> jsval) list" where
  "assign_props props [] = props"
| "assign_props props ((key, v) # added) = assign_props (set_prop key v props) added"

fun Object_assign_plain :: "jsval \<Rightarrow> jsval \<Rightarrow> js_error + jsval" where
  "Object_assign_plain Undefined source =
     Inl (TypeError ''Cannot convert undefined or null to object'')"
| "Object_assign_plain Null source =
     Inl (TypeError ''Cannot convert undefined or null to object'')"
| "Object_assign_plain (Obj props) (Obj added) = Inr (Obj (assign_props props added))"
| "Object_assign_plain (Obj props) Undefined = Inr (Obj props)"
| "Object_assign_plain (Obj props) Null = Inr (Obj props)"
| "Object_assign_plain (Obj props) (Bool b) = Inr (Obj props)"
| "Object_assign_plain (Obj props) (Num n) = Inr (Obj props)"
| "Object_assign_plain target source = Inl (Failure ''Object.assign outside plain objects'')"

text \<open>
  A worker whose decryption returns the password and whose processor calls
  \<^verbatim>\<open>complete\<close> once, 250 milliseconds after a wrapper entered at time 1000.
\<close>

definition example_worker :: worker_collaborators where
  "example_worker =
     \<lparr>decrypt = (\<lambda>payload keypair.
        if keypair = Str ''keypair'' then Inr (Obj [(''password'', Str ''secret'')])
        else Inl (Failure ''wrong keypair'')),
      Object_assign = Object_assign_plain,
      processJob = (\<lambda>job.
        ([\<lparr>job_then = job, jobCompleteTime = 1250, completedAt = 1251\<rparr>], None))\<rparr>"

section \<open>Properties of the sanitizer\<close>

text \<open>The array loop keeps the elements before the first \<open>Undefined\<close> and nothing else.\<close>

lemma splice_loop_take_drop:
  "i \<le> length data \<Longrightarrow>
   splice_loop data i = take i data @ takeWhile (\<lambda>v. v \<noteq> Undefined) (drop i data)"
proof (induction data i rule: splice_loop.induct)
  case (1 data i)
  show ?case
  proof (cases "i < length data")
    case False
    with "1.prems" show ?thesis by (subst splice_loop.simps) simp
  next
    case lt: True
    then have dr: "drop i data = data ! i # drop (Suc i) data"
      by (simp add: Cons_nth_drop_Suc)
    show ?thesis
    proof (cases "data ! i = Undefined")
      case True
      with lt "1.IH"(1) have "splice_loop (take i data) i = take i data"
        by (simp add: min_def)
      with lt True dr show ?thesis by (subst splice_loop.simps) simp
    next
      case False
      with lt "1.IH"(2) have "splice_loop data (i + 1) =
          take (i + 1) data @ takeWhile (\<lambda>v. v \<noteq> Undefined) (drop (i + 1) data)"
        by simp
      with lt False dr show ?thesis
        by (subst splice_loop.simps) (simp add: take_Suc_conv_app_nth)
    qed
  qed
qed

lemma splice_loop_takeWhile:
  "splice_loop data 0 = takeWhile (\<lambda>v. v \<noteq> Undefined) data"
  using splice_loop_take_drop [of 0 data] by simp

lemma splice_loop_fixed:
  "Undefined \<notin> set data \<Longrightarrow> splice_loop data 0 = data"
  by (auto simp: splice_loop_takeWhile)

lemma splice_loop_defined: "Undefined \<notin> set (splice_loop data 0)"
  by (auto simp: splice_loop_takeWhile dest: set_takeWhileD)

lemma removeUndefinedFields_object:
  "typeof_object v \<Longrightarrow> removeUndefinedFields v = Inr w \<Longrightarrow> typeof_object w"
  by (cases v) (auto split: sum.splits)

lemma removeUndefinedFields_truthy:
  "removeUndefinedFields v = Inr w \<Longrightarrow> truthy w = truthy v"
  by (cases v) (auto split: sum.splits)

lemma for_in_object_keys:
  "for_in_object data props = Inr props' \<Longrightarrow> fst ` set props' \<subseteq> fst ` set props"
proof (induction props arbitrary: props')
  case Nil
  then show ?case by simp
next
  case (Cons kv props)
  obtain key v where kv: "kv = (key, v)" by (cases kv)
  from Cons.prems kv obtain v' rest' where
    rest': "for_in_object data props = Inr rest'"
    and ps: "props' = rest' \<or> props' = (key, v') # rest'"
    by (fastforce split: if_splits sum.splits)
  from Cons.IH [OF rest'] ps kv show ?case by force
qed

text \<open>
  A value the sanitizer returns is left as it is by a second run. The three statements
  follow the three mutually recursive functions.
\<close>

lemma sanitize_fixed:
  "(\<forall>w. removeUndefinedFields v = Inr w \<longrightarrow> removeUndefinedFields w = Inr w)"
  "(\<forall>ys. for_in_array xs = Inr ys \<longrightarrow>
      for_in_array ys = Inr ys \<and> (Undefined \<notin> set xs \<longrightarrow> Undefined \<notin> set ys))"
  "(\<forall>props'. for_in_object data props = Inr props' \<longrightarrow>
      Undefined \<notin> snd ` set props' \<and>
      (\<forall>data'. \<not> hasOwnProperty_shadowed data' \<longrightarrow> for_in_object data' props' = Inr props'))"
proof (induction v and xs and data props
    rule: removeUndefinedFields_for_in_array_for_in_object.induct)
  case (1 data)
  show ?case
  proof (intro allI impI)
    fix w assume a: "removeUndefinedFields (Arr data) = Inr w"
    then obtain ys where ys: "for_in_array (splice_loop data 0) = Inr ys" and w: "w = Arr ys"
      by (auto split: sum.splits)
    from 1 ys have fx: "for_in_array ys = Inr ys" and nu: "Undefined \<notin> set ys"
      using splice_loop_defined by blast+
    from nu have "splice_loop ys 0 = ys" by (rule splice_loop_fixed)
    with fx w show "removeUndefinedFields w = Inr w" by simp
  qed
next
  case (2 props)
  show ?case
  proof (intro allI impI)
    fix w assume a: "removeUndefinedFields (Obj props) = Inr w"
    then obtain ps where ps: "for_in_object props props = Inr ps" and w: "w = Obj ps"
      by (auto split: sum.splits)
    have "\<not> hasOwnProperty_shadowed ps"
    proof (cases props)
      case Nil
      with ps show ?thesis by (simp add: hasOwnProperty_shadowed_def)
    next
      case (Cons kv rest)
      obtain key v where "kv = (key, v)" by (cases kv)
      with ps Cons have "\<not> hasOwnProperty_shadowed props"
        by (auto split: if_splits)
      with for_in_object_keys [OF ps] show ?thesis
        by (auto simp: hasOwnProperty_shadowed_def)
    qed
    with 2 ps have "for_in_object ps ps = Inr ps" by blast
    with w show "removeUndefinedFields w = Inr w" by simp
  qed
next
  case (9 v rest)
  show ?case
  proof (intro allI impI)
    fix ys assume a: "for_in_array (v # rest) = Inr ys"
    then obtain v' rest' where
      v': "(if typeof_object v then removeUndefinedFields v else Inr v) = Inr v'"
      and rest': "for_in_array rest = Inr rest'" and ys: "ys = v' # rest'"
      by (auto split: sum.splits)
    from 9(2) rest' have r1: "for_in_array rest' = Inr rest'"
      and r2: "Undefined \<notin> set rest \<longrightarrow> Undefined \<notin> set rest'"
      using v' by (auto split: if_splits)
    have v1: "(if typeof_object v' then removeUndefinedFields v' else Inr v') = Inr v'"
      using 9(1) v' by (auto split: if_splits)
    have v2: "v \<noteq> Undefined \<longrightarrow> v' \<noteq> Undefined"
      using v' removeUndefinedFields_object [of v v'] by (auto split: if_splits)
    from r1 r2 v1 v2 ys
    show "for_in_array ys = Inr ys \<and> (Undefined \<notin> set (v # rest) \<longrightarrow> Undefined \<notin> set ys)"
      by auto
  qed
next
  case (11 data key v rest)
  show ?case
  proof (intro allI impI)
    fix props' assume a: "for_in_object data ((key, v) # rest) = Inr props'"
    then have ns: "\<not> hasOwnProperty_shadowed data" by (auto split: if_splits)
    from a ns obtain v' rest' where
      v': "(if typeof_object v then removeUndefinedFields v else Inr v) = Inr v'"
      and rest': "for_in_object data rest = Inr rest'"
      and ps: "props' = (if v' = Undefined then rest' else (key, v') # rest')"
      by (auto split: sum.splits)
    from 11(2) ns v' rest' have r1: "Undefined \<notin> snd ` set rest'"
      and r2: "\<And>data'. \<not> hasOwnProperty_shadowed data' \<Longrightarrow> for_in_object data' rest' = Inr rest'"
      by (auto split: if_splits)
    have v1: "(if typeof_object v' then removeUndefinedFields v' else Inr v') = Inr v'"
      using 11(1) ns v' by (auto split: if_splits)
    show "Undefined \<notin> snd ` set props' \<and>
      (\<forall>data'. \<not> hasOwnProperty_shadowed data' \<longrightarrow> for_in_object data' props' = Inr props')"
      using r1 r2 v1 ps by auto
  qed
qed simp_all

text \<open>
  C1. The claim: every undefined element of a sequence is removed and the sequence is
  compacted, keeping all the defined elements in their order. On the array
  \<^verbatim>\<open>[1, undefined, 2]\<close> the sanitizer returns \<^verbatim>\<open>[1]\<close>: \<^verbatim>\<open>data.splice(i)\<close> has no
  delete count and cuts the array at the first undefined element, so the defined
  element \<^verbatim>\<open>2\<close>, which compaction keeps, is lost.
\<close>

theorem removeUndefinedFields_truncates:
  "removeUndefinedFields (Arr [Num 1, Undefined, Num 2]) = Inr (Arr [Num 1])
   \<and> filter (\<lambda>v. v \<noteq> Undefined) [Num 1, Undefined, Num 2] = [Num 1, Num 2]"
  by (simp add: splice_loop_takeWhile)

text \<open>
  C2. The sanitizer is idempotent: running it on a value it has returned gives that
  value again; where the first run throws, so does the composition.
\<close>

theorem removeUndefinedFields_idempotent:
  "(case removeUndefinedFields P of
      Inl err \<Rightarrow> Inl err
    | Inr P' \<Rightarrow> removeUndefinedFields P') = removeUndefinedFields P"
  using sanitize_fixed(1) [of P] by (auto split: sum.splits)

section \<open>Example runs\<close>

text \<open>The example submissions and the example worker, evaluated.\<close>

lemmas example_defs =
  example_collaborators_def example_service_def example_data_def example_sensitive_def
  example_job_def stale_service_def plain_job_def

lemmas addJob_defs =
  addJob_def addJob_then1_def addJob_then2_def fetchPublicKey_def encrypt_step_def
  make_jobData_def createRecord_path_def hasOwnProperty_shadowed_def

lemma example_addJob:
  "addJob example_collaborators example_service ''mail'' example_data example_sensitive =
     Inr (example_service\<lparr>publicKey := Str ''KEY''\<rparr>,
          [FetchRecord ''Public Key'' ''BACKGROUND_PUBLIC_KEY'',
           CreateRecord ''_fastQueue/task'',
           RecordUpdate ''_fastQueue/task'' example_job],
          Resolved \<lparr>record_path = ''_fastQueue/task'', record_data = example_job\<rparr>)"
  by (simp add: example_defs addJob_defs)

lemma example_addJob_cached:
  "addJob example_collaborators (example_service\<lparr>publicKey := Str ''KEY''\<rparr>) ''mail''
       example_data example_sensitive =
     Inr (example_service\<lparr>publicKey := Str ''KEY''\<rparr>,
          [CreateRecord ''_fastQueue/task'',
           RecordUpdate ''_fastQueue/task'' example_job],
          Resolved \<lparr>record_path = ''_fastQueue/task'', record_data = example_job\<rparr>)"
  by (simp add: example_defs addJob_defs)

lemma example_sanitized:
  "removeUndefinedFields example_data = Inr (Obj [(''to'', Str ''ann'')])"
  "removeUndefinedFields example_sensitive = Inr example_sensitive"
  by (simp_all add: example_defs hasOwnProperty_shadowed_def)

lemma stale_addJob:
  "addJob example_collaborators stale_service ''mail'' example_data example_sensitive =
     Inr (stale_service,
          [ConsoleLog (Failure ''malformed key''),
           CreateRecord ''_queue/task'',
           RecordUpdate ''_queue/task'' plain_job],
          Resolved \<lparr>record_path = ''_queue/task'', record_data = plain_job\<rparr>)"
  by (simp add: example_defs addJob_defs)

lemma example_addJobs1:
  "addJobs example_service
     [(example_collaborators, ''mail'', example_data, example_sensitive)] =
   (example_service\<lparr>publicKey := Str ''KEY''\<rparr>,
    [FetchRecord ''Public Key'' ''BACKGROUND_PUBLIC_KEY'',
     CreateRecord ''_fastQueue/task'',
     RecordUpdate ''_fastQueue/task'' example_job])"
  by (simp add: example_addJob)

lemma example_addJobs3:
  "addJobs example_service
     [(example_collaborators, ''mail'', example_data, example_sensitive),
      (example_collaborators, ''mail'', example_data, example_sensitive),
      (example_collaborators, ''mail'', example_data, example_sensitive)] =
   (example_service\<lparr>publicKey := Str ''KEY''\<rparr>,
    [FetchRecord ''Public Key'' ''BACKGROUND_PUBLIC_KEY'',
     CreateRecord ''_fastQueue/task'',
     RecordUpdate ''_fastQueue/task'' example_job,
     CreateRecord ''_fastQueue/task'',
     RecordUpdate ''_fastQueue/task'' example_job,
     CreateRecord ''_fastQueue/task'',
     RecordUpdate ''_fastQueue/task'' example_job])"
  by (simp add: example_addJob example_addJob_cached)

lemma shadowed_addJob:
  "addJob example_collaborators example_service ''mail''
       (Obj [(''hasOwnProperty'', Bool True)]) Undefined =
     Inl (TypeError ''data.hasOwnProperty is not a function'')"
  by (simp add: addJob_def hasOwnProperty_shadowed_def)

lemma example_decrypt_step:
  "decrypt_step example_worker (Str ''keypair'') example_job =
     (\<lparr>jtype = ''mail'',
       jdata = Obj [(''to'', Str ''ann''), (''password'', Str ''secret'')],
       encryptedData = None, encryptedKey = None\<rparr>, [])"
  by (simp add: decrypt_step_def example_worker_def example_job_def field_value_def)

lemma session_addJob:
  "addJob example_collaborators session_service ''mail'' example_data example_sensitive =
     Inr (session_service,
          [CreateRecord ''_sessionQueue/task'',
           RecordUpdate ''_sessionQueue/task'' example_job],
          Resolved \<lparr>record_path = ''_sessionQueue/task'', record_data = example_job\<rparr>)"
  by (simp add: example_defs session_service_def addJob_defs)

lemma offline_addJob:
  "addJob offline_collaborators example_service ''mail'' example_data example_sensitive =
     Inr (example_service,
          [FetchRecord ''Public Key'' ''BACKGROUND_PUBLIC_KEY''],
          Rejected (Failure ''offline''))"
  by (simp add: example_defs offline_collaborators_def addJob_defs)

section \<open>Properties of the service\<close>

lemma fetch_count_append: "fetch_count (xs @ ys) = fetch_count xs + fetch_count ys"
  by (induction xs rule: fetch_count.induct) auto

lemma created_paths_append: "created_paths (xs @ ys) = created_paths xs @ created_paths ys"
  by (induction xs rule: created_paths.induct) auto

lemma addJob_then1_cases:
  assumes "addJob_then1 c svc sd = (svc', fetched, u)"
  shows "(truthy (publicKey svc) \<or> \<not> truthy sd) \<and> svc' = svc \<and> fetched = [] \<and> u = Resolved ()
       \<or> \<not> truthy (publicKey svc) \<and> truthy sd
          \<and> fetched = [FetchRecord ''Public Key'' ''BACKGROUND_PUBLIC_KEY'']
          \<and> queueType svc' = queueType svc"
  using assms
  by (auto simp: addJob_then1_def fetchPublicKey_def split: if_splits promise.splits sum.splits)

lemma addJob_then2_trace:
  "addJob_then2 c svc ty d sd =
     (snd (encrypt_step c svc sd) @
        [CreateRecord (createRecord_path (queueType svc)),
         RecordUpdate (createRecord_path (queueType svc))
           (make_jobData ty d (fst (encrypt_step c svc sd)))],
      record_update c (createRecord_path (queueType svc))
        (make_jobData ty d (fst (encrypt_step c svc sd))))"
  by (simp add: addJob_then2_def split: prod.splits)

lemma addJob_Inr:
  assumes "addJob c svc ty d sd = Inr (svc', tr, out)"
  obtains d' sd' fetched u where
    "removeUndefinedFields d = Inr d'"
    "removeUndefinedFields sd = Inr sd'"
    "addJob_then1 c svc sd' = (svc', fetched, u)"
    "(u = Resolved () \<and> tr = fetched @ fst (addJob_then2 c svc' ty d' sd')
        \<and> out = snd (addJob_then2 c svc' ty d' sd'))
     \<or> ((\<forall>r. out \<noteq> Resolved r) \<and> u \<noteq> Resolved () \<and> tr = fetched)"
  using assms
  by (auto simp: addJob_def split: sum.splits prod.splits promise.splits)

lemma encrypt_step_logged:
  "snd (encrypt_step c svc sd) = [] \<or> (\<exists>err. snd (encrypt_step c svc sd) = [ConsoleLog err])"
  by (auto simp: encrypt_step_def split: sum.splits)


lemma make_jobData_fields:
  "jtype (make_jobData ty d e) = ty" "jdata (make_jobData ty d e) = d"
  "encryptedData (make_jobData ty d e) = map_option payloadData e"
  "encryptedKey (make_jobData ty d e) = map_option payloadKey e"
  by (auto simp: make_jobData_def split: option.splits)

lemma encrypt_step_payload:
  "fst (encrypt_step c svc sd) =
     (if truthy sd then (case encrypt c sd (publicKey svc) of Inl err \<Rightarrow> None | Inr p \<Rightarrow> Some p)
      else None)"
  by (auto simp: encrypt_step_def split: sum.splits)

lemma addJob_RecordUpdate:
  assumes "addJob c svc ty d sd = Inr (svc', tr, out)" and "RecordUpdate path j \<in> set tr"
  obtains d' sd' where
    "removeUndefinedFields d = Inr d'"
    "removeUndefinedFields sd = Inr sd'"
    "path = createRecord_path (queueType svc')"
    "j = make_jobData ty d' (fst (encrypt_step c svc' sd'))"
proof -
  from assms(1) obtain d' sd' fetched u where
    d': "removeUndefinedFields d = Inr d'" and sd': "removeUndefinedFields sd = Inr sd'"
    and t1: "addJob_then1 c svc sd' = (svc', fetched, u)"
    and alt: "(u = Resolved () \<and> tr = fetched @ fst (addJob_then2 c svc' ty d' sd')
        \<and> out = snd (addJob_then2 c svc' ty d' sd'))
     \<or> ((\<forall>r. out \<noteq> Resolved r) \<and> u \<noteq> Resolved () \<and> tr = fetched)"
    by (rule addJob_Inr)
  from addJob_then1_cases [OF t1] have nf: "RecordUpdate path j \<notin> set fetched" by auto
  from encrypt_step_logged [of c svc' sd']
  have nl: "RecordUpdate path j \<notin> set (snd (encrypt_step c svc' sd'))" by auto
  from alt assms(2) nf nl
  have "path = createRecord_path (queueType svc')
      \<and> j = make_jobData ty d' (fst (encrypt_step c svc' sd'))"
    by (auto simp: addJob_then2_trace)
  with d' sd' that show thesis by blast
qed

text \<open>
  C3. In every job record \<^verbatim>\<open>addJob\<close> writes, \<^verbatim>\<open>encryptedData\<close> and \<^verbatim>\<open>encryptedKey\<close>
  are both present or both absent, and they are present exactly when sensitive data
  was supplied (a truthy \<^verbatim>\<open>sensitiveData\<close>, as the code tests it) and the encryption of
  the sanitized fragment with the cached key succeeded.
\<close>

theorem addJob_encrypted_fields:
  assumes "addJob c svc ty d sd = Inr (svc', tr, out)" and "RecordUpdate path j \<in> set tr"
  shows "(encryptedData j = None \<longleftrightarrow> encryptedKey j = None)
    \<and> (encryptedData j \<noteq> None \<longleftrightarrow>
         truthy sd \<and> (\<exists>sd' p. removeUndefinedFields sd = Inr sd'
                        \<and> encrypt c sd' (publicKey svc') = Inr p))"
proof -
  from assms obtain d' sd' where
    sd': "removeUndefinedFields sd = Inr sd'"
    and j: "j = make_jobData ty d' (fst (encrypt_step c svc' sd'))"
    by (rule addJob_RecordUpdate)
  from removeUndefinedFields_truthy [OF sd'] have tr: "truthy sd' = truthy sd" .
  show ?thesis using sd' tr
    by (auto simp: j make_jobData_fields encrypt_step_payload split: sum.splits)
qed

theorem addJob_encrypted_fields_witness:
  "addJob example_collaborators example_service ''mail'' example_data example_sensitive =
     Inr (example_service\<lparr>publicKey := Str ''KEY''\<rparr>,
          [FetchRecord ''Public Key'' ''BACKGROUND_PUBLIC_KEY'',
           CreateRecord ''_fastQueue/task'',
           RecordUpdate ''_fastQueue/task'' example_job],
          Resolved \<lparr>record_path = ''_fastQueue/task'', record_data = example_job\<rparr>)
   \<and> RecordUpdate ''_fastQueue/task'' example_job \<in>
       set [FetchRecord ''Public Key'' ''BACKGROUND_PUBLIC_KEY'',
            CreateRecord ''_fastQueue/task'',
            RecordUpdate ''_fastQueue/task'' example_job]
   \<and> (encryptedData example_job = None \<longleftrightarrow> encryptedKey example_job = None)
   \<and> encryptedData example_job = Some (Str ''sealed'')
   \<and> truthy example_sensitive
   \<and> (\<exists>sd' p. removeUndefinedFields example_sensitive = Inr sd'
         \<and> encrypt example_collaborators sd'
              (publicKey (example_service\<lparr>publicKey := Str ''KEY''\<rparr>)) = Inr p)"
proof -
  have run: "addJob example_collaborators example_service ''mail'' example_data example_sensitive =
     Inr (example_service\<lparr>publicKey := Str ''KEY''\<rparr>,
          [FetchRecord ''Public Key'' ''BACKGROUND_PUBLIC_KEY'',
           CreateRecord ''_fastQueue/task'',
           RecordUpdate ''_fastQueue/task'' example_job],
          Resolved \<lparr>record_path = ''_fastQueue/task'', record_data = example_job\<rparr>)"
    by (rule example_addJob)
  have mem: "RecordUpdate ''_fastQueue/task'' example_job \<in>
       set [FetchRecord ''Public Key'' ''BACKGROUND_PUBLIC_KEY'',
            CreateRecord ''_fastQueue/task'',
            RecordUpdate ''_fastQueue/task'' example_job]"
    by simp
  have enc: "encryptedData example_job = Some (Str ''sealed'')"
    by (simp add: example_job_def)
  from addJob_encrypted_fields [OF run mem] run mem enc show ?thesis by simp
qed

text \<open>
  C10. The job record \<^verbatim>\<open>addJob\<close> writes holds the type, the sanitized data and
  nothing else, or these and the two outputs of a successful encryption: the raw
  \<^verbatim>\<open>sensitiveData\<close> is no field of it, whether the encryption succeeds or fails.
\<close>

theorem addJob_stores_no_plaintext:
  assumes "addJob c svc ty d sd = Inr (svc', tr, out)" and "RecordUpdate path j \<in> set tr"
  shows "\<exists>d'. removeUndefinedFields d = Inr d' \<and>
     (j = \<lparr>jtype = ty, jdata = d', encryptedData = None, encryptedKey = None\<rparr>
      \<or> (\<exists>sd' p. removeUndefinedFields sd = Inr sd'
            \<and> encrypt c sd' (publicKey svc') = Inr p
            \<and> j = \<lparr>jtype = ty, jdata = d', encryptedData = Some (payloadData p),
                    encryptedKey = Some (payloadKey p)\<rparr>))"
proof -
  from assms obtain d' sd' where
    d': "removeUndefinedFields d = Inr d'"
    and sd': "removeUndefinedFields sd = Inr sd'"
    and j: "j = make_jobData ty d' (fst (encrypt_step c svc' sd'))"
    by (rule addJob_RecordUpdate)
  show ?thesis using d' sd'
    by (auto simp: j make_jobData_def encrypt_step_payload split: sum.splits)
qed

theorem addJob_stores_no_plaintext_witness:
  "addJob example_collaborators stale_service ''mail'' example_data example_sensitive =
     Inr (stale_service,
          [ConsoleLog (Failure ''malformed key''),
           CreateRecord ''_queue/task'',
           RecordUpdate ''_queue/task'' plain_job],
          Resolved \<lparr>record_path = ''_queue/task'', record_data = plain_job\<rparr>)
   \<and> RecordUpdate ''_queue/task'' plain_job \<in>
       set [ConsoleLog (Failure ''malformed key''),
            CreateRecord ''_queue/task'',
            RecordUpdate ''_queue/task'' plain_job]
   \<and> (\<exists>d'. removeUndefinedFields example_data = Inr d' \<and>
        (plain_job = \<lparr>jtype = ''mail'', jdata = d', encryptedData = None, encryptedKey = None\<rparr>
         \<or> (\<exists>sd' p. removeUndefinedFields example_sensitive = Inr sd'
              \<and> encrypt example_collaborators sd' (publicKey stale_service) = Inr p
              \<and> plain_job = \<lparr>jtype = ''mail'', jdata = d',
                     encryptedData = Some (payloadData p),
                     encryptedKey = Some (payloadKey p)\<rparr>)))"
proof -
  have run: "addJob example_collaborators stale_service ''mail'' example_data example_sensitive =
     Inr (stale_service,
          [ConsoleLog (Failure ''malformed key''),
           CreateRecord ''_queue/task'',
           RecordUpdate ''_queue/task'' plain_job],
          Resolved \<lparr>record_path = ''_queue/task'', record_data = plain_job\<rparr>)"
    by (rule stale_addJob)
  have mem: "RecordUpdate ''_queue/task'' plain_job \<in>
       set [ConsoleLog (Failure ''malformed key''),
            CreateRecord ''_queue/task'',
            RecordUpdate ''_queue/task'' plain_job]"
    by simp
  from addJob_stores_no_plaintext [OF run mem] run mem show ?thesis by blast
qed

text \<open>
  C5. When sensitive data is supplied and the encryption throws, the error is caught
  and logged, the record is created and updated with a job that has no encrypted
  fields, and the promise of \<^verbatim>\<open>addJob\<close> is the promise of that update: it resolves
  whenever the storage resolves.
\<close>

theorem addJob_encryption_failure:
  assumes "removeUndefinedFields d = Inr d'"
    and "removeUndefinedFields sd = Inr sd'"
    and "truthy sd"
    and "addJob_then1 c svc sd' = (svc', fetched, Resolved ())"
    and "encrypt c sd' (publicKey svc') = Inl err"
  shows "addJob c svc ty d sd =
     Inr (svc',
          fetched @
            [ConsoleLog err,
             CreateRecord (createRecord_path (queueType svc')),
             RecordUpdate (createRecord_path (queueType svc'))
               \<lparr>jtype = ty, jdata = d', encryptedData = None, encryptedKey = None\<rparr>],
          record_update c (createRecord_path (queueType svc'))
            \<lparr>jtype = ty, jdata = d', encryptedData = None, encryptedKey = None\<rparr>)"
proof -
  from removeUndefinedFields_truthy [OF assms(2)] assms(3) have "truthy sd'" by simp
  with assms(5) have "encrypt_step c svc' sd' = (None, [ConsoleLog err])"
    by (simp add: encrypt_step_def)
  with assms(1,2,4) show ?thesis
    by (simp add: addJob_def addJob_then2_def make_jobData_def)
qed

theorem addJob_encryption_failure_witness:
  "removeUndefinedFields example_data = Inr (Obj [(''to'', Str ''ann'')])
   \<and> removeUndefinedFields example_sensitive = Inr example_sensitive
   \<and> truthy example_sensitive
   \<and> addJob_then1 example_collaborators stale_service example_sensitive =
       (stale_service, [], Resolved ())
   \<and> encrypt example_collaborators example_sensitive (publicKey stale_service) =
       Inl (Failure ''malformed key'')
   \<and> addJob example_collaborators stale_service ''mail'' example_data example_sensitive =
       Inr (stale_service,
            [ConsoleLog (Failure ''malformed key''),
             CreateRecord ''_queue/task'',
             RecordUpdate ''_queue/task'' plain_job],
            Resolved \<lparr>record_path = ''_queue/task'', record_data = plain_job\<rparr>)"
proof -
  have h1: "removeUndefinedFields example_data = Inr (Obj [(''to'', Str ''ann'')])"
    by (rule example_sanitized)
  have h2: "removeUndefinedFields example_sensitive = Inr example_sensitive"
    by (rule example_sanitized)
  have h3: "truthy example_sensitive" by (simp add: example_sensitive_def)
  have h4: "addJob_then1 example_collaborators stale_service example_sensitive =
       (stale_service, [], Resolved ())"
    by (simp add: addJob_then1_def stale_service_def example_sensitive_def)
  have h5: "encrypt example_collaborators example_sensitive (publicKey stale_service) =
       Inl (Failure ''malformed key'')"
    by (simp add: example_collaborators_def stale_service_def)
  from addJob_encryption_failure [OF h1 h2 h3 h4 h5, of "''mail''"]
  have "addJob example_collaborators stale_service ''mail'' example_data example_sensitive =
       Inr (stale_service,
            [ConsoleLog (Failure ''malformed key''),
             CreateRecord ''_queue/task'',
             RecordUpdate ''_queue/task'' plain_job],
            Resolved \<lparr>record_path = ''_queue/task'', record_data = plain_job\<rparr>)"
    by (simp add: createRecord_path_def stale_service_def plain_job_def
        example_collaborators_def)
  with h1 h2 h3 h4 h5 show ?thesis by blast
qed

lemma created_paths_logged: "created_paths (snd (encrypt_step c svc sd)) = []"
  using encrypt_step_logged [of c svc sd] by auto

lemma addJob_total:
  assumes "removeUndefinedFields d = Inr d'" and "removeUndefinedFields sd = Inr sd'"
  shows "\<exists>res. addJob c svc ty d sd = Inr res"
  unfolding addJob_def by (simp only: assms sum.case) blast

lemma addJob_queueType:
  assumes "addJob c svc ty d sd = Inr (svc', tr, out)"
  shows "queueType svc' = queueType svc"
  using assms by (rule addJob_Inr) (auto dest: addJob_then1_cases)

lemma addJob_then1_resolved:
  "snd (snd (addJob_then1 c svc sd)) = Resolved () \<longleftrightarrow>
     (truthy (publicKey svc) \<or> \<not> truthy sd
      \<or> (\<exists>recordData v. fetchRecord c ''Public Key'' ''BACKGROUND_PUBLIC_KEY'' = Resolved recordData
            \<and> get_value recordData = Inr v))"
  by (auto simp: addJob_then1_def fetchPublicKey_def split: promise.splits sum.splits)

lemma addJob_created_paths_exact:
  assumes "addJob c svc ty d sd = Inr (svc', tr, out)"
  shows "(truthy (publicKey svc) \<or> \<not> truthy sd
      \<or> (\<exists>recordData v. fetchRecord c ''Public Key'' ''BACKGROUND_PUBLIC_KEY'' = Resolved recordData
            \<and> get_value recordData = Inr v))
     \<and> created_paths tr = [createRecord_path (queueType svc)]
   \<or> \<not> (truthy (publicKey svc) \<or> \<not> truthy sd
      \<or> (\<exists>recordData v. fetchRecord c ''Public Key'' ''BACKGROUND_PUBLIC_KEY'' = Resolved recordData
            \<and> get_value recordData = Inr v))
     \<and> created_paths tr = [] \<and> (\<forall>r. out \<noteq> Resolved r)"
proof -
  from assms obtain d' sd' fetched u where
    sd': "removeUndefinedFields sd = Inr sd'"
    and t1: "addJob_then1 c svc sd' = (svc', fetched, u)"
    and alt: "(u = Resolved () \<and> tr = fetched @ fst (addJob_then2 c svc' ty d' sd')
        \<and> out = snd (addJob_then2 c svc' ty d' sd'))
     \<or> ((\<forall>r. out \<noteq> Resolved r) \<and> u \<noteq> Resolved () \<and> tr = fetched)"
    by (rule addJob_Inr)
  from addJob_then1_cases [OF t1]
  have f: "created_paths fetched = []" and q: "queueType svc' = queueType svc" by auto
  from removeUndefinedFields_truthy [OF sd'] have ts: "truthy sd' = truthy sd" .
  from t1 have "snd (snd (addJob_then1 c svc sd')) = u" by simp
  with addJob_then1_resolved [of c svc sd'] ts
  have u: "u = Resolved () \<longleftrightarrow>
     (truthy (publicKey svc) \<or> \<not> truthy sd
      \<or> (\<exists>recordData v. fetchRecord c ''Public Key'' ''BACKGROUND_PUBLIC_KEY'' = Resolved recordData
            \<and> get_value recordData = Inr v))"
    by simp
  show ?thesis
  proof (cases "u = Resolved ()")
    case True
    with alt f q have "created_paths tr = [createRecord_path (queueType svc)]"
      by (auto simp: addJob_then2_trace created_paths_append created_paths_logged)
    with True u show ?thesis by blast
  next
    case False
    with alt f have "created_paths tr = [] \<and> (\<forall>r. out \<noteq> Resolved r)" by auto
    with False u show ?thesis by blast
  qed
qed

text \<open>
  C4. On a service in any state, an \<^verbatim>\<open>addJob\<close> call whose key fetch is not needed or
  succeeds creates exactly one record: at \<^verbatim>\<open>_fastQueue/task\<close> when the queue type is
  \<^verbatim>\<open>'fast'\<close>, at \<^verbatim>\<open>_sessionQueue/task\<close> when it is \<^verbatim>\<open>'session'\<close>, at \<^verbatim>\<open>_queue/task\<close>
  when it is \<^verbatim>\<open>'default'\<close> or unset. A call whose key fetch fails creates none and
  does not resolve. The queue type of the service never changes, and \<^verbatim>\<open>addJob\<close> throws
  nothing once the sanitizer has returned. Every other queue type makes the
  constructor throw, and the four accepted ones construct the service with that type.
\<close>

theorem addJob_queue_routing:
  "(addJob c svc ty d sd = Inr (svc', tr, out)
      \<and> (truthy (publicKey svc) \<or> \<not> truthy sd
         \<or> (\<exists>recordData v.
               fetchRecord c ''Public Key'' ''BACKGROUND_PUBLIC_KEY'' = Resolved recordData
               \<and> get_value recordData = Inr v)) \<longrightarrow>
      (queueType svc = Str ''fast'' \<longrightarrow> created_paths tr = [''_fastQueue/task''])
      \<and> (queueType svc = Str ''session'' \<longrightarrow> created_paths tr = [''_sessionQueue/task''])
      \<and> (queueType svc = Str ''default'' \<or> queueType svc = Undefined \<longrightarrow>
            created_paths tr = [''_queue/task'']))
   \<and> (addJob c svc ty d sd = Inr (svc', tr, out)
      \<and> \<not> (truthy (publicKey svc) \<or> \<not> truthy sd
         \<or> (\<exists>recordData v.
               fetchRecord c ''Public Key'' ''BACKGROUND_PUBLIC_KEY'' = Resolved recordData
               \<and> get_value recordData = Inr v)) \<longrightarrow>
      created_paths tr = [] \<and> (\<forall>r. out \<noteq> Resolved r))
   \<and> (addJob c svc ty d sd = Inr (svc', tr, out) \<longrightarrow> queueType svc' = queueType svc)
   \<and> (removeUndefinedFields d = Inr d' \<and> removeUndefinedFields sd = Inr sd' \<longrightarrow>
        (\<exists>res. addJob c svc ty d sd = Inr res))
   \<and> (qt \<noteq> Str ''fast'' \<and> qt \<noteq> Str ''session'' \<and> qt \<noteq> Str ''default'' \<and> qt \<noteq> Undefined \<longrightarrow>
        (\<exists>err. JobQueueService storage qt = Inl err))
   \<and> (qt = Str ''fast'' \<or> qt = Str ''session'' \<or> qt = Str ''default'' \<or> qt = Undefined \<longrightarrow>
        JobQueueService (Some store) qt = Inr \<lparr>queueType = qt, publicKey = Undefined\<rparr>)"
proof (intro conjI impI)
  assume a: "addJob c svc ty d sd = Inr (svc', tr, out)
      \<and> (truthy (publicKey svc) \<or> \<not> truthy sd
         \<or> (\<exists>recordData v.
               fetchRecord c ''Public Key'' ''BACKGROUND_PUBLIC_KEY'' = Resolved recordData
               \<and> get_value recordData = Inr v))"
  then have p: "created_paths tr = [createRecord_path (queueType svc)]"
    using addJob_created_paths_exact [of c svc ty d sd svc' tr out] by blast
  { assume "queueType svc = Str ''fast''"
    with p show "created_paths tr = [''_fastQueue/task'']"
      by (simp add: createRecord_path_def) }
  { assume "queueType svc = Str ''session''"
    with p show "created_paths tr = [''_sessionQueue/task'']"
      by (simp add: createRecord_path_def) }
  { assume "queueType svc = Str ''default'' \<or> queueType svc = Undefined"
    with p show "created_paths tr = [''_queue/task'']"
      by (auto simp: createRecord_path_def) }
next
  assume a: "addJob c svc ty d sd = Inr (svc', tr, out)
      \<and> \<not> (truthy (publicKey svc) \<or> \<not> truthy sd
         \<or> (\<exists>recordData v.
               fetchRecord c ''Public Key'' ''BACKGROUND_PUBLIC_KEY'' = Resolved recordData
               \<and> get_value recordData = Inr v))"
  then have r: "created_paths tr = [] \<and> (\<forall>r. out \<noteq> Resolved r)"
    using addJob_created_paths_exact [of c svc ty d sd svc' tr out] by blast
  from r show "created_paths tr = []" by simp
  from r show "\<forall>r. out \<noteq> Resolved r" by simp
next
  assume "addJob c svc ty d sd = Inr (svc', tr, out)"
  then show "queueType svc' = queueType svc" by (rule addJob_queueType)
next
  assume "removeUndefinedFields d = Inr d' \<and> removeUndefinedFields sd = Inr sd'"
  then show "\<exists>res. addJob c svc ty d sd = Inr res" using addJob_total by blast
next
  assume "qt \<noteq> Str ''fast'' \<and> qt \<noteq> Str ''session'' \<and> qt \<noteq> Str ''default'' \<and> qt \<noteq> Undefined"
  then show "\<exists>err. JobQueueService storage qt = Inl err"
    by (simp add: JobQueueService_def)
next
  assume "qt = Str ''fast'' \<or> qt = Str ''session'' \<or> qt = Str ''default'' \<or> qt = Undefined"
  then show "JobQueueService (Some store) qt = Inr \<lparr>queueType = qt, publicKey = Undefined\<rparr>"
    by (auto simp: JobQueueService_def)
qed

theorem addJob_queue_routing_witness:
  "addJob example_collaborators example_service ''mail'' example_data example_sensitive =
     Inr (example_service\<lparr>publicKey := Str ''KEY''\<rparr>,
          [FetchRecord ''Public Key'' ''BACKGROUND_PUBLIC_KEY'',
           CreateRecord ''_fastQueue/task'',
           RecordUpdate ''_fastQueue/task'' example_job],
          Resolved \<lparr>record_path = ''_fastQueue/task'', record_data = example_job\<rparr>)
   \<and> fetchRecord example_collaborators ''Public Key'' ''BACKGROUND_PUBLIC_KEY'' =
       Resolved (Obj [(''value'', Str ''KEY'')])
   \<and> get_value (Obj [(''value'', Str ''KEY'')]) = Inr (Str ''KEY'')
   \<and> queueType example_service = Str ''fast''
   \<and> created_paths
        [FetchRecord ''Public Key'' ''BACKGROUND_PUBLIC_KEY'',
         CreateRecord ''_fastQueue/task'',
         RecordUpdate ''_fastQueue/task'' example_job] = [''_fastQueue/task'']
   \<and> queueType (example_service\<lparr>publicKey := Str ''KEY''\<rparr>) = queueType example_service
   \<and> addJob example_collaborators session_service ''mail'' example_data example_sensitive =
     Inr (session_service,
          [CreateRecord ''_sessionQueue/task'',
           RecordUpdate ''_sessionQueue/task'' example_job],
          Resolved \<lparr>record_path = ''_sessionQueue/task'', record_data = example_job\<rparr>)
   \<and> truthy (publicKey session_service)
   \<and> queueType session_service = Str ''session''
   \<and> created_paths
        [CreateRecord ''_sessionQueue/task'',
         RecordUpdate ''_sessionQueue/task'' example_job] = [''_sessionQueue/task'']
   \<and> addJob example_collaborators stale_service ''mail'' example_data example_sensitive =
     Inr (stale_service,
          [ConsoleLog (Failure ''malformed key''),
           CreateRecord ''_queue/task'',
           RecordUpdate ''_queue/task'' plain_job],
          Resolved \<lparr>record_path = ''_queue/task'', record_data = plain_job\<rparr>)
   \<and> truthy (publicKey stale_service)
   \<and> queueType stale_service = Undefined
   \<and> created_paths
        [ConsoleLog (Failure ''malformed key''),
         CreateRecord ''_queue/task'',
         RecordUpdate ''_queue/task'' plain_job] = [''_queue/task'']
   \<and> addJob offline_collaborators example_service ''mail'' example_data example_sensitive =
     Inr (example_service,
          [FetchRecord ''Public Key'' ''BACKGROUND_PUBLIC_KEY''],
          Rejected (Failure ''offline''))
   \<and> \<not> truthy (publicKey example_service)
   \<and> truthy example_sensitive
   \<and> fetchRecord offline_collaborators ''Public Key'' ''BACKGROUND_PUBLIC_KEY'' =
       Rejected (Failure ''offline'')
   \<and> created_paths [FetchRecord ''Public Key'' ''BACKGROUND_PUBLIC_KEY''] = []
   \<and> removeUndefinedFields example_data = Inr (Obj [(''to'', Str ''ann'')])
   \<and> removeUndefinedFields example_sensitive = Inr example_sensitive
   \<and> (\<exists>res. addJob offline_collaborators session_service ''mail'' example_data
          example_sensitive = Inr res)
   \<and> Str ''slow'' \<noteq> Str ''fast'' \<and> Str ''slow'' \<noteq> Str ''session''
   \<and> Str ''slow'' \<noteq> Str ''default'' \<and> Str ''slow'' \<noteq> Undefined
   \<and> (\<exists>err. JobQueueService (Some ()) (Str ''slow'') = Inl err)
   \<and> JobQueueService (Some ()) (Str ''fast'') = Inr example_service"
proof -
  have runA: "addJob example_collaborators example_service ''mail'' example_data
      example_sensitive =
     Inr (example_service\<lparr>publicKey := Str ''KEY''\<rparr>,
          [FetchRecord ''Public Key'' ''BACKGROUND_PUBLIC_KEY'',
           CreateRecord ''_fastQueue/task'',
           RecordUpdate ''_fastQueue/task'' example_job],
          Resolved \<lparr>record_path = ''_fastQueue/task'', record_data = example_job\<rparr>)"
    by (rule example_addJob)
  have fA: "fetchRecord example_collaborators ''Public Key'' ''BACKGROUND_PUBLIC_KEY'' =
       Resolved (Obj [(''value'', Str ''KEY'')])"
    by (simp add: example_collaborators_def)
  have gA: "get_value (Obj [(''value'', Str ''KEY'')]) = Inr (Str ''KEY'')" by simp
  have qA: "queueType example_service = Str ''fast''" by (simp add: example_service_def)
  have condA: "truthy (publicKey example_service) \<or> \<not> truthy example_sensitive
      \<or> (\<exists>recordData v.
            fetchRecord example_collaborators ''Public Key'' ''BACKGROUND_PUBLIC_KEY'' =
              Resolved recordData
            \<and> get_value recordData = Inr v)"
    using fA gA by blast
  note instA = addJob_queue_routing [where c = example_collaborators
      and svc = example_service and ty = "''mail''" and d = example_data
      and sd = example_sensitive and svc' = "example_service\<lparr>publicKey := Str ''KEY''\<rparr>"
      and tr = "[FetchRecord ''Public Key'' ''BACKGROUND_PUBLIC_KEY'',
           CreateRecord ''_fastQueue/task'',
           RecordUpdate ''_fastQueue/task'' example_job]"
      and out = "Resolved \<lparr>record_path = ''_fastQueue/task'', record_data = example_job\<rparr>"]
  from instA [THEN conjunct1] runA condA qA
  have pA: "created_paths
        [FetchRecord ''Public Key'' ''BACKGROUND_PUBLIC_KEY'',
         CreateRecord ''_fastQueue/task'',
         RecordUpdate ''_fastQueue/task'' example_job] = [''_fastQueue/task'']"
    by blast
  from instA [THEN conjunct2, THEN conjunct2, THEN conjunct1] runA
  have kA: "queueType (example_service\<lparr>publicKey := Str ''KEY''\<rparr>) = queueType example_service"
    by blast
  have runB: "addJob example_collaborators session_service ''mail'' example_data
      example_sensitive =
     Inr (session_service,
          [CreateRecord ''_sessionQueue/task'',
           RecordUpdate ''_sessionQueue/task'' example_job],
          Resolved \<lparr>record_path = ''_sessionQueue/task'', record_data = example_job\<rparr>)"
    by (rule session_addJob)
  have tB: "truthy (publicKey session_service)" by (simp add: session_service_def)
  have qB: "queueType session_service = Str ''session''" by (simp add: session_service_def)
  from addJob_queue_routing [where c = example_collaborators
      and svc = session_service and ty = "''mail''" and d = example_data
      and sd = example_sensitive and svc' = session_service
      and tr = "[CreateRecord ''_sessionQueue/task'',
           RecordUpdate ''_sessionQueue/task'' example_job]"
      and out = "Resolved \<lparr>record_path = ''_sessionQueue/task'', record_data = example_job\<rparr>",
      THEN conjunct1] runB tB qB
  have pB: "created_paths
        [CreateRecord ''_sessionQueue/task'',
         RecordUpdate ''_sessionQueue/task'' example_job] = [''_sessionQueue/task'']"
    by blast
  have runC: "addJob example_collaborators stale_service ''mail'' example_data
      example_sensitive =
     Inr (stale_service,
          [ConsoleLog (Failure ''malformed key''),
           CreateRecord ''_queue/task'',
           RecordUpdate ''_queue/task'' plain_job],
          Resolved \<lparr>record_path = ''_queue/task'', record_data = plain_job\<rparr>)"
    by (rule stale_addJob)
  have tC: "truthy (publicKey stale_service)" by (simp add: stale_service_def)
  have qC: "queueType stale_service = Undefined" by (simp add: stale_service_def)
  from addJob_queue_routing [where c = example_collaborators
      and svc = stale_service and ty = "''mail''" and d = example_data
      and sd = example_sensitive and svc' = stale_service
      and tr = "[ConsoleLog (Failure ''malformed key''),
           CreateRecord ''_queue/task'',
           RecordUpdate ''_queue/task'' plain_job]"
      and out = "Resolved \<lparr>record_path = ''_queue/task'', record_data = plain_job\<rparr>",
      THEN conjunct1] runC tC qC
  have pC: "created_paths
        [ConsoleLog (Failure ''malformed key''),
         CreateRecord ''_queue/task'',
         RecordUpdate ''_queue/task'' plain_job] = [''_queue/task'']"
    by blast
  have runD: "addJob offline_collaborators example_service ''mail'' example_data
      example_sensitive =
     Inr (example_service,
          [FetchRecord ''Public Key'' ''BACKGROUND_PUBLIC_KEY''],
          Rejected (Failure ''offline''))"
    by (rule offline_addJob)
  have nkD: "\<not> truthy (publicKey example_service)" by (simp add: example_service_def)
  have tsD: "truthy example_sensitive" by (simp add: example_sensitive_def)
  have fD: "fetchRecord offline_collaborators ''Public Key'' ''BACKGROUND_PUBLIC_KEY'' =
       Rejected (Failure ''offline'')"
    by (simp add: offline_collaborators_def)
  have condD: "\<not> (truthy (publicKey example_service) \<or> \<not> truthy example_sensitive
      \<or> (\<exists>recordData v.
            fetchRecord offline_collaborators ''Public Key'' ''BACKGROUND_PUBLIC_KEY'' =
              Resolved recordData
            \<and> get_value recordData = Inr v))"
    using nkD tsD fD by simp
  from addJob_queue_routing [where c = offline_collaborators
      and svc = example_service and ty = "''mail''" and d = example_data
      and sd = example_sensitive and svc' = example_service
      and tr = "[FetchRecord ''Public Key'' ''BACKGROUND_PUBLIC_KEY'']"
      and out = "Rejected (Failure ''offline'')",
      THEN conjunct2, THEN conjunct1] runD condD
  have pD: "created_paths [FetchRecord ''Public Key'' ''BACKGROUND_PUBLIC_KEY''] = []"
    by blast
  have s1: "removeUndefinedFields example_data = Inr (Obj [(''to'', Str ''ann'')])"
    by (rule example_sanitized)
  have s2: "removeUndefinedFields example_sensitive = Inr example_sensitive"
    by (rule example_sanitized)
  from addJob_queue_routing [where c = offline_collaborators
      and svc = session_service and ty = "''mail''" and d = example_data
      and sd = example_sensitive and d' = "Obj [(''to'', Str ''ann'')]"
      and sd' = example_sensitive,
      THEN conjunct2, THEN conjunct2, THEN conjunct2, THEN conjunct1] s1 s2
  have pE: "\<exists>res. addJob offline_collaborators session_service ''mail'' example_data
          example_sensitive = Inr res"
    by blast
  have slow: "Str ''slow'' \<noteq> Str ''fast'' \<and> Str ''slow'' \<noteq> Str ''session''
     \<and> Str ''slow'' \<noteq> Str ''default'' \<and> Str ''slow'' \<noteq> Undefined"
    by simp
  have pF: "\<exists>err. JobQueueService (Some ()) (Str ''slow'') = Inl err"
    by (rule addJob_queue_routing [where qt = "Str ''slow''" and storage = "Some ()",
          THEN conjunct2, THEN conjunct2, THEN conjunct2, THEN conjunct2,
          THEN conjunct1, THEN mp])
      (rule slow)
  from addJob_queue_routing [where qt = "Str ''fast''" and store = "()",
      THEN conjunct2, THEN conjunct2, THEN conjunct2, THEN conjunct2, THEN conjunct2]
  have pG: "JobQueueService (Some ()) (Str ''fast'') = Inr example_service"
    by (simp add: example_service_def)
  from runA fA gA qA pA kA runB tB qB pB runC tC qC pC runD nkD tsD fD pD s1 s2 pE slow pF pG
  show ?thesis by blast
qed

lemma addJob_fetch_count:
  assumes "addJob c svc ty d sd = Inr (svc', tr, out)"
  shows "fetch_count tr = (if \<not> truthy (publicKey svc) \<and> truthy sd then 1 else 0)"
proof -
  from assms obtain d' sd' fetched u where
    sd': "removeUndefinedFields sd = Inr sd'"
    and t1: "addJob_then1 c svc sd' = (svc', fetched, u)"
    and alt: "(u = Resolved () \<and> tr = fetched @ fst (addJob_then2 c svc' ty d' sd')
        \<and> out = snd (addJob_then2 c svc' ty d' sd'))
     \<or> ((\<forall>r. out \<noteq> Resolved r) \<and> u \<noteq> Resolved () \<and> tr = fetched)"
    by (rule addJob_Inr)
  have l: "fetch_count (snd (encrypt_step c svc' sd')) = 0"
    using encrypt_step_logged [of c svc' sd'] by auto
  from removeUndefinedFields_truthy [OF sd'] have "truthy sd' = truthy sd" .
  with addJob_then1_cases [OF t1] alt l show ?thesis
    by (auto simp: addJob_then2_trace fetch_count_append)
qed

lemma addJob_cached:
  assumes "addJob c svc ty d sd = Inr (svc', tr, out)" and "truthy (publicKey svc)"
  shows "svc' = svc"
proof -
  from assms(1) obtain d' sd' fetched u where
    t1: "addJob_then1 c svc sd' = (svc', fetched, u)"
    by (rule addJob_Inr)
  with assms(2) show ?thesis by (auto simp: addJob_then1_def)
qed

lemma addJobs_cached:
  "truthy (publicKey svc) \<Longrightarrow> addJobs svc calls = (svc', tr) \<Longrightarrow> svc' = svc \<and> fetch_count tr = 0"
proof (induction calls arbitrary: tr svc')
  case Nil
  then show ?case by simp
next
  case (Cons call calls)
  obtain c ty d sd where call: "call = (c, ty, d, sd)" by (cases call)
  show ?case
  proof (cases "addJob c svc ty d sd")
    case (Inl err)
    with Cons call show ?thesis by simp
  next
    case (Inr res)
    obtain svc1 made out where res: "res = (svc1, made, out)" by (cases res)
    from Inr res Cons.prems(1) have s1: "svc1 = svc" and f: "fetch_count made = 0"
      using addJob_cached addJob_fetch_count by fastforce+
    obtain svc2 made' where rest: "addJobs svc calls = (svc2, made')" by (cases "addJobs svc calls")
    from Cons.IH [OF Cons.prems(1) rest] have "svc2 = svc" "fetch_count made' = 0" by auto
    with Cons.prems(2) call Inr res s1 f rest show ?thesis
      by (auto simp: fetch_count_append)
  qed
qed

lemma addJobs_append:
  "addJobs svc (calls1 @ calls2) =
     (case addJobs svc calls1 of
        (svc1, tr1) \<Rightarrow> (case addJobs svc1 calls2 of (svc2, tr2) \<Rightarrow> (svc2, tr1 @ tr2)))"
proof (induction calls1 arbitrary: svc)
  case Nil
  then show ?case by (simp split: prod.splits)
next
  case (Cons call calls1)
  obtain c ty d sd where call: "call = (c, ty, d, sd)" by (cases call)
  show ?case by (simp add: call Cons.IH split: sum.splits prod.splits)
qed

lemma addJob_fetch_succeeds:
  assumes "addJob c svc ty d sd = Inr (svc', tr, out)" and "fetch_succeeds c"
    and "fetch_count tr \<noteq> 0"
  shows "truthy (publicKey svc')"
proof -
  from assms(1) obtain d' sd' fetched u where
    sd': "removeUndefinedFields sd = Inr sd'"
    and t1: "addJob_then1 c svc sd' = (svc', fetched, u)"
    by (rule addJob_Inr)
  from assms(1,3) addJob_fetch_count [OF assms(1)]
  have "\<not> truthy (publicKey svc) \<and> truthy sd" by (auto split: if_splits)
  with removeUndefinedFields_truthy [OF sd'] have "\<not> truthy (publicKey svc) \<and> truthy sd'" by simp
  with t1 assms(2) show ?thesis
    by (auto simp: addJob_then1_def fetchPublicKey_def fetch_succeeds_def
        split: promise.splits sum.splits)
qed

lemma addJobs_fetch_once:
  "list_all (\<lambda>call. fetch_succeeds (fst call)) calls \<Longrightarrow>
   fetch_count (snd (addJobs svc calls)) \<le> 1"
proof (induction calls arbitrary: svc)
  case Nil
  then show ?case by simp
next
  case (Cons call calls)
  obtain c ty d sd where call: "call = (c, ty, d, sd)" by (cases call)
  from Cons.prems have fs: "fetch_succeeds c"
    and rest: "list_all (\<lambda>call. fetch_succeeds (fst call)) calls"
    by (auto simp: call)
  show ?case
  proof (cases "addJob c svc ty d sd")
    case (Inl err)
    with Cons.IH [OF rest, of svc] call show ?thesis by simp
  next
    case (Inr res)
    obtain svc1 made out where res: "res = (svc1, made, out)" by (cases res)
    obtain svc2 made' where r2: "addJobs svc1 calls = (svc2, made')" by (cases "addJobs svc1 calls")
    have "fetch_count made + fetch_count made' \<le> 1"
    proof (cases "fetch_count made = 0")
      case True
      with Cons.IH [OF rest, of svc1] r2 show ?thesis by simp
    next
      case False
      with Inr res fs have "truthy (publicKey svc1)" using addJob_fetch_succeeds by blast
      from addJobs_cached [OF this r2] have "fetch_count made' = 0" by simp
      moreover from addJob_fetch_count [of c svc ty d sd svc1 made out] Inr res
      have "fetch_count made \<le> 1" by simp
      ultimately show ?thesis by simp
    qed
    with call Inr res r2 show ?thesis by (simp add: fetch_count_append)
  qed
qed

text \<open>
  C6. An \<^verbatim>\<open>addJob\<close> call fetches the public key once when no key is cached and
  sensitive data is supplied, and not at all otherwise. In a sequence of calls, no
  call made after a key has been cached fetches again; and when every fetch succeeds,
  the whole sequence fetches at most once.
\<close>

theorem addJob_key_fetch_once:
  "(addJob c svc ty d sd = Inr (svc', tr, out) \<longrightarrow>
      fetch_count tr = (if \<not> truthy (publicKey svc) \<and> truthy sd then 1 else 0))
   \<and> (truthy (publicKey (fst (addJobs svc calls1))) \<longrightarrow>
        fetch_count (snd (addJobs svc (calls1 @ calls2))) = fetch_count (snd (addJobs svc calls1)))
   \<and> (list_all (\<lambda>call. fetch_succeeds (fst call)) calls \<longrightarrow>
        fetch_count (snd (addJobs svc calls)) \<le> 1)"
proof (intro conjI impI)
  assume "addJob c svc ty d sd = Inr (svc', tr, out)"
  then show "fetch_count tr = (if \<not> truthy (publicKey svc) \<and> truthy sd then 1 else 0)"
    by (rule addJob_fetch_count)
next
  assume k: "truthy (publicKey (fst (addJobs svc calls1)))"
  obtain svc1 tr1 where r1: "addJobs svc calls1 = (svc1, tr1)" by (cases "addJobs svc calls1")
  obtain svc2 tr2 where r2: "addJobs svc1 calls2 = (svc2, tr2)" by (cases "addJobs svc1 calls2")
  from k r1 have "truthy (publicKey svc1)" by simp
  from addJobs_cached [OF this r2] have "fetch_count tr2 = 0" by simp
  with r1 r2 show "fetch_count (snd (addJobs svc (calls1 @ calls2))) = fetch_count (snd (addJobs svc calls1))"
    by (simp add: addJobs_append fetch_count_append)
next
  assume "list_all (\<lambda>call. fetch_succeeds (fst call)) calls"
  then show "fetch_count (snd (addJobs svc calls)) \<le> 1" by (rule addJobs_fetch_once)
qed

theorem addJob_key_fetch_once_witness:
  "addJob example_collaborators example_service ''mail'' example_data example_sensitive =
     Inr (example_service\<lparr>publicKey := Str ''KEY''\<rparr>,
          [FetchRecord ''Public Key'' ''BACKGROUND_PUBLIC_KEY'',
           CreateRecord ''_fastQueue/task'',
           RecordUpdate ''_fastQueue/task'' example_job],
          Resolved \<lparr>record_path = ''_fastQueue/task'', record_data = example_job\<rparr>)
   \<and> fetch_count
        [FetchRecord ''Public Key'' ''BACKGROUND_PUBLIC_KEY'',
         CreateRecord ''_fastQueue/task'',
         RecordUpdate ''_fastQueue/task'' example_job] = 1
   \<and> truthy (publicKey (fst (addJobs example_service
        [(example_collaborators, ''mail'', example_data, example_sensitive)])))
   \<and> fetch_count (snd (addJobs example_service
        ([(example_collaborators, ''mail'', example_data, example_sensitive)]
         @ [(example_collaborators, ''mail'', example_data, example_sensitive),
            (example_collaborators, ''mail'', example_data, example_sensitive)]))) =
      fetch_count (snd (addJobs example_service
        [(example_collaborators, ''mail'', example_data, example_sensitive)]))
   \<and> list_all (\<lambda>call. fetch_succeeds (fst call))
        [(example_collaborators, ''mail'', example_data, example_sensitive),
         (example_collaborators, ''mail'', example_data, example_sensitive),
         (example_collaborators, ''mail'', example_data, example_sensitive)]
   \<and> fetch_count (snd (addJobs example_service
        [(example_collaborators, ''mail'', example_data, example_sensitive),
         (example_collaborators, ''mail'', example_data, example_sensitive),
         (example_collaborators, ''mail'', example_data, example_sensitive)])) \<le> 1"
proof -
  note inst = addJob_key_fetch_once [of example_collaborators example_service "''mail''"
      example_data example_sensitive "example_service\<lparr>publicKey := Str ''KEY''\<rparr>"
      "[FetchRecord ''Public Key'' ''BACKGROUND_PUBLIC_KEY'',
        CreateRecord ''_fastQueue/task'',
        RecordUpdate ''_fastQueue/task'' example_job]"
      "Resolved \<lparr>record_path = ''_fastQueue/task'', record_data = example_job\<rparr>"
      "[(example_collaborators, ''mail'', example_data, example_sensitive)]"
      "[(example_collaborators, ''mail'', example_data, example_sensitive),
        (example_collaborators, ''mail'', example_data, example_sensitive)]"
      "[(example_collaborators, ''mail'', example_data, example_sensitive),
        (example_collaborators, ''mail'', example_data, example_sensitive),
        (example_collaborators, ''mail'', example_data, example_sensitive)]"]
  have run: "addJob example_collaborators example_service ''mail'' example_data example_sensitive =
     Inr (example_service\<lparr>publicKey := Str ''KEY''\<rparr>,
          [FetchRecord ''Public Key'' ''BACKGROUND_PUBLIC_KEY'',
           CreateRecord ''_fastQueue/task'',
           RecordUpdate ''_fastQueue/task'' example_job],
          Resolved \<lparr>record_path = ''_fastQueue/task'', record_data = example_job\<rparr>)"
    by (rule example_addJob)
  have cached: "truthy (publicKey (fst (addJobs example_service
        [(example_collaborators, ''mail'', example_data, example_sensitive)])))"
    by (simp only: example_addJobs1) (simp add: example_service_def)
  have healthy: "list_all (\<lambda>call. fetch_succeeds (fst call))
        [(example_collaborators, ''mail'', example_data, example_sensitive),
         (example_collaborators, ''mail'', example_data, example_sensitive),
         (example_collaborators, ''mail'', example_data, example_sensitive)]"
    by (simp add: fetch_succeeds_def example_collaborators_def)
  have one: "fetch_count
        [FetchRecord ''Public Key'' ''BACKGROUND_PUBLIC_KEY'',
         CreateRecord ''_fastQueue/task'',
         RecordUpdate ''_fastQueue/task'' example_job] = 1"
    using inst [THEN conjunct1, THEN mp, OF run] by (simp add: example_service_def example_sensitive_def)
  from inst [THEN conjunct2, THEN conjunct1, THEN mp, OF cached]
    inst [THEN conjunct2, THEN conjunct2, THEN mp, OF healthy]
    run one cached healthy
  show ?thesis by blast
qed

lemma deliver_not_null:
  "Null \<notin> set before \<Longrightarrow> deliver record \<lparr>synced = True, deferred = p\<rparr> (before @ later) =
     (case deliver record \<lparr>synced = True, deferred = p\<rparr> later of
        (sub, done) \<Rightarrow> (sub, map SyncCallback before @ done))"
  by (induction before) (auto simp: sync_callback_def split: prod.splits)

lemma deliver_unsynced: "\<not> synced sub \<Longrightarrow> deliver record sub later = (sub, [])"
  by (cases later) auto

lemma deliver_null:
  "deliver record \<lparr>synced = True, deferred = Pending\<rparr> (Null # later) =
     (\<lparr>synced = False, deferred = Resolved ()\<rparr>,
      [SyncCallback Null, RecordUnsync record, DeferredResolve])"
  by (simp add: sync_callback_def deferred_resolve_def deliver_unsynced)

lemma count_fetched:
  "addJob_then1 c svc sd = (svc', fetched, u) \<Longrightarrow> count_list fetched DeferredResolve = 0"
  by (drule addJob_then1_cases) auto

lemma count_logged: "count_list (snd (encrypt_step c svc sd)) DeferredResolve = 0"
  using encrypt_step_logged [of c svc sd] by auto

lemma count_list_append: "count_list (xs @ ys) x = count_list xs x + count_list ys x"
  by (induction xs) auto

lemma addJob_no_resolve:
  assumes "addJob c svc ty d sd = Inr (svc', tr, out)"
  shows "count_list tr DeferredResolve = 0"
proof -
  from assms obtain d' sd' fetched u where
    t1: "addJob_then1 c svc sd' = (svc', fetched, u)"
    and alt: "(u = Resolved () \<and> tr = fetched @ fst (addJob_then2 c svc' ty d' sd')
        \<and> out = snd (addJob_then2 c svc' ty d' sd'))
     \<or> ((\<forall>r. out \<noteq> Resolved r) \<and> u \<noteq> Resolved () \<and> tr = fetched)"
    by (rule addJob_Inr)
  from alt count_fetched [OF t1] show ?thesis
    by (auto simp: addJob_then2_trace count_list_append count_logged)
qed

lemma count_callbacks: "Null \<notin> set before \<Longrightarrow> count_list (map SyncCallback before) DeferredResolve = 0"
  by (induction before) auto

text \<open>
  C7. An error thrown by the \<^verbatim>\<open>addJob\<close> call inside \<^verbatim>\<open>performJob\<close> is caught:
  \<^verbatim>\<open>performJob\<close> returns a promise rejected with that error.
\<close>

theorem performJob_sync_error:
  assumes "addJob c svc ty d sd = Inl err"
  shows "performJob c svc ty d sd observed = (svc, [DeferredReject err], Rejected err)"
  using assms by (simp add: performJob_def deferred_reject_def)

theorem performJob_sync_error_witness:
  "addJob example_collaborators example_service ''mail''
       (Obj [(''hasOwnProperty'', Bool True)]) Undefined =
     Inl (TypeError ''data.hasOwnProperty is not a function'')
   \<and> performJob example_collaborators example_service ''mail''
       (Obj [(''hasOwnProperty'', Bool True)]) Undefined [Null] =
     (example_service,
      [DeferredReject (TypeError ''data.hasOwnProperty is not a function'')],
      Rejected (TypeError ''data.hasOwnProperty is not a function''))"
  using shadowed_addJob performJob_sync_error [OF shadowed_addJob, of "[Null]"] by blast

text \<open>
  C8. When the record is created and its observed data is not null until it becomes
  null, the callback unsyncs the record at that observation and resolves the
  deferred; the observations after it are not processed, and the deferred is resolved
  exactly once.
\<close>

theorem performJob_completion:
  assumes "addJob c svc ty d sd = Inr (svc', made, Resolved record)"
    and "Null \<notin> set before"
  shows "performJob c svc ty d sd (before @ Null # later) =
      (svc',
       made @ RecordSync record # map SyncCallback before
         @ [SyncCallback Null, RecordUnsync record, DeferredResolve],
       Resolved ())
    \<and> count_list (fst (snd (performJob c svc ty d sd (before @ Null # later)))) DeferredResolve = 1"
proof -
  have eq: "performJob c svc ty d sd (before @ Null # later) =
      (svc',
       made @ RecordSync record # map SyncCallback before
         @ [SyncCallback Null, RecordUnsync record, DeferredResolve],
       Resolved ())"
  proof -
    have "deliver record \<lparr>synced = True, deferred = Pending\<rparr> (before @ Null # later) =
        (\<lparr>synced = False, deferred = Resolved ()\<rparr>,
         map SyncCallback before @ [SyncCallback Null, RecordUnsync record, DeferredResolve])"
      by (simp only: deliver_not_null [OF assms(2)] deliver_null prod.case)
    with assms(1) show ?thesis by (simp add: performJob_def)
  qed
  from addJob_no_resolve [OF assms(1)] count_callbacks [OF assms(2)]
  have "count_list (made @ RecordSync record # map SyncCallback before
         @ [SyncCallback Null, RecordUnsync record, DeferredResolve]) DeferredResolve = 1"
    by (simp add: count_list_append)
  with eq show ?thesis by simp
qed

theorem performJob_completion_witness:
  "addJob example_collaborators example_service ''mail'' example_data example_sensitive =
     Inr (example_service\<lparr>publicKey := Str ''KEY''\<rparr>,
          [FetchRecord ''Public Key'' ''BACKGROUND_PUBLIC_KEY'',
           CreateRecord ''_fastQueue/task'',
           RecordUpdate ''_fastQueue/task'' example_job],
          Resolved \<lparr>record_path = ''_fastQueue/task'', record_data = example_job\<rparr>)
   \<and> Null \<notin> set [Obj [(''type'', Str ''mail'')]]
   \<and> performJob example_collaborators example_service ''mail'' example_data example_sensitive
        ([Obj [(''type'', Str ''mail'')]] @ Null # [Obj [(''type'', Str ''mail'')], Null]) =
      (example_service\<lparr>publicKey := Str ''KEY''\<rparr>,
       [FetchRecord ''Public Key'' ''BACKGROUND_PUBLIC_KEY'',
        CreateRecord ''_fastQueue/task'',
        RecordUpdate ''_fastQueue/task'' example_job,
        RecordSync \<lparr>record_path = ''_fastQueue/task'', record_data = example_job\<rparr>,
        SyncCallback (Obj [(''type'', Str ''mail'')]),
        SyncCallback Null,
        RecordUnsync \<lparr>record_path = ''_fastQueue/task'', record_data = example_job\<rparr>,
        DeferredResolve],
       Resolved ())"
proof -
  have run: "addJob example_collaborators example_service ''mail'' example_data example_sensitive =
     Inr (example_service\<lparr>publicKey := Str ''KEY''\<rparr>,
          [FetchRecord ''Public Key'' ''BACKGROUND_PUBLIC_KEY'',
           CreateRecord ''_fastQueue/task'',
           RecordUpdate ''_fastQueue/task'' example_job],
          Resolved \<lparr>record_path = ''_fastQueue/task'', record_data = example_job\<rparr>)"
    by (rule example_addJob)
  have nn: "Null \<notin> set [Obj [(''type'', Str ''mail'')]]" by simp
  from performJob_completion [OF run nn, of "[Obj [(''type'', Str ''mail'')], Null]"]
  have "performJob example_collaborators example_service ''mail'' example_data example_sensitive
        ([Obj [(''type'', Str ''mail'')]] @ Null # [Obj [(''type'', Str ''mail'')], Null]) =
      (example_service\<lparr>publicKey := Str ''KEY''\<rparr>,
       [FetchRecord ''Public Key'' ''BACKGROUND_PUBLIC_KEY'',
        CreateRecord ''_fastQueue/task'',
        RecordUpdate ''_fastQueue/task'' example_job,
        RecordSync \<lparr>record_path = ''_fastQueue/task'', record_data = example_job\<rparr>,
        SyncCallback (Obj [(''type'', Str ''mail'')]),
        SyncCallback Null,
        RecordUnsync \<lparr>record_path = ''_fastQueue/task'', record_data = example_job\<rparr>,
        DeferredResolve],
       Resolved ())"
    by simp
  with run nn show ?thesis by blast
qed

lemma decrypt_step_jtype: "jtype (fst (decrypt_step w keypair job)) = jtype job"
  by (auto simp: decrypt_step_def split: sum.splits)

text \<open>
  C9. For a call of \<^verbatim>\<open>complete\<close> made \<open>dt\<close> milliseconds after the wrapper was
  entered, the wrapper hands the telemetry collaborator a tracking event named
  \<^verbatim>\<open><job.type>-job-completed\<close> whose \<^verbatim>\<open>jobCompletionTime\<close> is \<open>dt\<close>, and calls the
  provider's \<^verbatim>\<open>complete\<close> right after it; the wrapper itself leaves the type of the
  job as it was dispatched.
\<close>

theorem innerProcessJob_tracking_event:
  assumes "processJob w (fst (decrypt_step w keypair job)) = (earlier @ cpl # later, thrown)"
    and "jobCompleteTime cpl = jobStartTime + dt"
  shows "innerProcessJob w keypair jobStartTime job =
      ((LogServiceLog (''Processing '' @ jtype job @ '' job'') (jdata job)
          # snd (decrypt_step w keypair job)
          @ concat (map (complete_callback jobStartTime) earlier))
         @ [DataServiceCreate
              \<lparr>event_type = ''TrackingEvent'',
               eventName = jtype (job_then cpl) @ ''-job-completed'',
               happenedAt = completedAt cpl,
               jobCompletionTime = dt\<rparr>,
            ProviderComplete]
         @ concat (map (complete_callback jobStartTime) later),
       thrown)
    \<and> jtype (fst (decrypt_step w keypair job)) = jtype job"
proof -
  obtain job' logged where ds: "decrypt_step w keypair job = (job', logged)"
    by (cases "decrypt_step w keypair job")
  with assms(1) have pj: "processJob w job' = (earlier @ cpl # later, thrown)" by simp
  from ds pj assms(2) have "innerProcessJob w keypair jobStartTime job =
      ((LogServiceLog (''Processing '' @ jtype job @ '' job'') (jdata job)
          # snd (decrypt_step w keypair job)
          @ concat (map (complete_callback jobStartTime) earlier))
         @ [DataServiceCreate
              \<lparr>event_type = ''TrackingEvent'',
               eventName = jtype (job_then cpl) @ ''-job-completed'',
               happenedAt = completedAt cpl,
               jobCompletionTime = dt\<rparr>,
            ProviderComplete]
         @ concat (map (complete_callback jobStartTime) later),
       thrown)"
    by (simp add: innerProcessJob_def complete_callback_def)
  then show ?thesis by (simp add: decrypt_step_jtype)
qed

theorem innerProcessJob_tracking_event_witness:
  "processJob example_worker (fst (decrypt_step example_worker (Str ''keypair'') example_job)) =
     ([] @ \<lparr>job_then = \<lparr>jtype = ''mail'',
                jdata = Obj [(''to'', Str ''ann''), (''password'', Str ''secret'')],
                encryptedData = None, encryptedKey = None\<rparr>,
             jobCompleteTime = 1250, completedAt = 1251\<rparr> # [], None)
   \<and> jobCompleteTime \<lparr>job_then = \<lparr>jtype = ''mail'',
                jdata = Obj [(''to'', Str ''ann''), (''password'', Str ''secret'')],
                encryptedData = None, encryptedKey = None\<rparr>,
             jobCompleteTime = 1250, completedAt = 1251\<rparr> = 1000 + 250
   \<and> innerProcessJob example_worker (Str ''keypair'') 1000 example_job =
       ([LogServiceLog ''Processing mail job'' (Obj [(''to'', Str ''ann'')]),
         DataServiceCreate
           \<lparr>event_type = ''TrackingEvent'', eventName = ''mail-job-completed'',
            happenedAt = 1251, jobCompletionTime = 250\<rparr>,
         ProviderComplete],
        None)"
proof -
  have h1: "processJob example_worker
      (fst (decrypt_step example_worker (Str ''keypair'') example_job)) =
     ([] @ \<lparr>job_then = \<lparr>jtype = ''mail'',
                jdata = Obj [(''to'', Str ''ann''), (''password'', Str ''secret'')],
                encryptedData = None, encryptedKey = None\<rparr>,
             jobCompleteTime = 1250, completedAt = 1251\<rparr> # [], None)"
    by (simp add: example_decrypt_step) (simp add: example_worker_def)
  have h2: "jobCompleteTime \<lparr>job_then = \<lparr>jtype = ''mail'',
                jdata = Obj [(''to'', Str ''ann''), (''password'', Str ''secret'')],
                encryptedData = None, encryptedKey = None\<rparr>,
             jobCompleteTime = 1250, completedAt = 1251\<rparr> = 1000 + 250"
    by simp
  from innerProcessJob_tracking_event [OF h1 h2]
  have "innerProcessJob example_worker (Str ''keypair'') 1000 example_job =
       ([LogServiceLog ''Processing mail job'' (Obj [(''to'', Str ''ann'')]),
         DataServiceCreate
           \<lparr>event_type = ''TrackingEvent'', eventName = ''mail-job-completed'',
            happenedAt = 1251, jobCompletionTime = 250\<rparr>,
         ProviderComplete],
        None)"
    by (simp add: example_decrypt_step) (simp add: example_job_def)
  with h1 h2 show ?thesis by blast
qed

end
